theory Spec2Isabelle
  imports Complex_Main "HOL-Library.Word" "HOL-Library.Signed_Division"
begin

unbundle bit_operations_syntax

section \<open>Machine integers, errors and native constants\<close>

text \<open>
  The Go source works on fixed-width integers: status and attribute bitfields are
  \<open>uint32\<close>, the fields of the device settings are \<open>int16\<close>, paper codes are
  \<open>uint16\<close>, ticket sizes and capability values are \<open>int32\<close>. They are words here;
  \<open>sint\<close> reads a signed one.
\<close>

type_synonym uint32 = "32 word"
type_synonym int32 = "32 word"
type_synonym int16 = "16 word"
type_synonym uint16 = "16 word"

text \<open>
  Every Go \<open>error\<close> value the source can return. \<open>ERROR_INVALID_PARAMETER\<close> is the one
  error value the source compares against; \<open>NativeError\<close> stands for any other error of
  a native call; \<open>SyntaxError\<close> and \<open>RangeError\<close> are the two errors of
  \<open>strconv.ParseInt\<close>; \<open>NilTicket\<close> is the \<open>errors.New\<close> value \<open>Print\<close> returns for a
  \<open>nil\<close> ticket.
\<close>

datatype error =
    ERROR_INVALID_PARAMETER
  | NativeError nat
  | SyntaxError
  | RangeError
  | NilTicket

text \<open>
  The \<open>PRINTER_STATUS_*\<close>, \<open>PRINTER_ATTRIBUTE_*\<close> and \<open>JOB_STATUS_*\<close> constants are
  declared outside the files at hand. Their names are the constructors below and their
  values are a parameter (a function from the name to the bit mask) of every function
  that tests them, so that what is proved holds for any values.
\<close>

datatype printer_flag =
    PRINTER_STATUS_PRINTING | PRINTER_STATUS_PROCESSING | PRINTER_STATUS_PAUSED
  | PRINTER_STATUS_ERROR | PRINTER_STATUS_PENDING_DELETION | PRINTER_STATUS_PAPER_JAM
  | PRINTER_STATUS_PAPER_OUT | PRINTER_STATUS_MANUAL_FEED | PRINTER_STATUS_PAPER_PROBLEM
  | PRINTER_STATUS_OFFLINE | PRINTER_ATTRIBUTE_WORK_OFFLINE | PRINTER_STATUS_IO_ACTIVE
  | PRINTER_STATUS_BUSY | PRINTER_STATUS_OUTPUT_BIN_FULL | PRINTER_STATUS_NOT_AVAILABLE
  | PRINTER_STATUS_WAITING | PRINTER_STATUS_INITIALIZING | PRINTER_STATUS_WARMING_UP
  | PRINTER_STATUS_TONER_LOW | PRINTER_STATUS_NO_TONER | PRINTER_STATUS_PAGE_PUNT
  | PRINTER_STATUS_USER_INTERVENTION | PRINTER_STATUS_OUT_OF_MEMORY
  | PRINTER_STATUS_DOOR_OPEN | PRINTER_STATUS_SERVER_UNKNOWN | PRINTER_STATUS_POWER_SAVE

datatype job_flag =
    JOB_STATUS_PAUSED | JOB_STATUS_ERROR | JOB_STATUS_DELETING | JOB_STATUS_SPOOLING
  | JOB_STATUS_PRINTING | JOB_STATUS_OFFLINE | JOB_STATUS_PAPEROUT | JOB_STATUS_PRINTED
  | JOB_STATUS_DELETED | JOB_STATUS_BLOCKED_DEVQ | JOB_STATUS_USER_INTERVENTION
  | JOB_STATUS_COMPLETE | JOB_STATUS_RETAINED

text \<open>
  The values the Windows headers give these names, used where a theorem is run on a
  concrete input.
\<close>

fun winspool_printer_flags :: "printer_flag \<Rightarrow> uint32" where
  "winspool_printer_flags PRINTER_STATUS_PAUSED = 0x1"
| "winspool_printer_flags PRINTER_STATUS_ERROR = 0x2"
| "winspool_printer_flags PRINTER_STATUS_PENDING_DELETION = 0x4"
| "winspool_printer_flags PRINTER_STATUS_PAPER_JAM = 0x8"
| "winspool_printer_flags PRINTER_STATUS_PAPER_OUT = 0x10"
| "winspool_printer_flags PRINTER_STATUS_MANUAL_FEED = 0x20"
| "winspool_printer_flags PRINTER_STATUS_PAPER_PROBLEM = 0x40"
| "winspool_printer_flags PRINTER_STATUS_OFFLINE = 0x80"
| "winspool_printer_flags PRINTER_STATUS_IO_ACTIVE = 0x100"
| "winspool_printer_flags PRINTER_STATUS_BUSY = 0x200"
| "winspool_printer_flags PRINTER_STATUS_PRINTING = 0x400"
| "winspool_printer_flags PRINTER_STATUS_OUTPUT_BIN_FULL = 0x800"
| "winspool_printer_flags PRINTER_STATUS_NOT_AVAILABLE = 0x1000"
| "winspool_printer_flags PRINTER_STATUS_WAITING = 0x2000"
| "winspool_printer_flags PRINTER_STATUS_PROCESSING = 0x4000"
| "winspool_printer_flags PRINTER_STATUS_INITIALIZING = 0x8000"
| "winspool_printer_flags PRINTER_STATUS_WARMING_UP = 0x10000"
| "winspool_printer_flags PRINTER_STATUS_TONER_LOW = 0x20000"
| "winspool_printer_flags PRINTER_STATUS_NO_TONER = 0x40000"
| "winspool_printer_flags PRINTER_STATUS_PAGE_PUNT = 0x80000"
| "winspool_printer_flags PRINTER_STATUS_USER_INTERVENTION = 0x100000"
| "winspool_printer_flags PRINTER_STATUS_OUT_OF_MEMORY = 0x200000"
| "winspool_printer_flags PRINTER_STATUS_DOOR_OPEN = 0x400000"
| "winspool_printer_flags PRINTER_STATUS_SERVER_UNKNOWN = 0x800000"
| "winspool_printer_flags PRINTER_STATUS_POWER_SAVE = 0x1000000"
| "winspool_printer_flags PRINTER_ATTRIBUTE_WORK_OFFLINE = 0x400"

fun winspool_job_flags :: "job_flag \<Rightarrow> uint32" where
  "winspool_job_flags JOB_STATUS_PAUSED = 0x1"
| "winspool_job_flags JOB_STATUS_ERROR = 0x2"
| "winspool_job_flags JOB_STATUS_DELETING = 0x4"
| "winspool_job_flags JOB_STATUS_SPOOLING = 0x8"
| "winspool_job_flags JOB_STATUS_PRINTING = 0x10"
| "winspool_job_flags JOB_STATUS_OFFLINE = 0x20"
| "winspool_job_flags JOB_STATUS_PAPEROUT = 0x40"
| "winspool_job_flags JOB_STATUS_PRINTED = 0x80"
| "winspool_job_flags JOB_STATUS_DELETED = 0x100"
| "winspool_job_flags JOB_STATUS_BLOCKED_DEVQ = 0x200"
| "winspool_job_flags JOB_STATUS_USER_INTERVENTION = 0x400"
| "winspool_job_flags JOB_STATUS_COMPLETE = 0x1000"
| "winspool_job_flags JOB_STATUS_RETAINED = 0x2000"

section \<open>Printer state: \<open>convertPrinterState\<close>\<close>

datatype CloudDeviceState =
  CloudDeviceStateIdle | CloudDeviceStateProcessing | CloudDeviceStateStopped

datatype VendorStateType = VendorStateError | VendorStateWarning | VendorStateInfo

record VendorStateItem =
  vsi_State :: VendorStateType
  vsi_DescriptionLocalized :: string

record VendorState =
  Item :: "VendorStateItem list"

text \<open>\<open>VendorState\<close> is a pointer in the source: \<open>None\<close> is \<open>nil\<close>.\<close>

record PrinterStateSection =
  pss_State :: CloudDeviceState
  pss_VendorState :: "VendorState option"

text \<open>
  After the test of the printing and processing bits, \<open>convertPrinterState\<close> is a
  sequence of \<open>if\<close> blocks of one shape: a test on the bitfields, an optional
  \<open>state.State = CloudDeviceStateStopped\<close>, and the \<open>append\<close> of one item.
  \<open>printerStatusChecks\<close> lists the blocks in the order of the source, each as the
  outcome of its test, whether it assigns the stopped state, and the severity and text of
  its item; \<open>applyCheck\<close> is the effect of one block on the state and the item list.
\<close>

type_synonym statusCheck = "bool \<times> bool \<times> VendorStateType \<times> string"

definition printerStatusChecks ::
  "(printer_flag \<Rightarrow> uint32) \<Rightarrow> uint32 \<Rightarrow> uint32 \<Rightarrow> statusCheck list" where
  "printerStatusChecks c wsStatus wsAttributes =
    [(wsStatus AND c PRINTER_STATUS_PAUSED \<noteq> 0, True, VendorStateWarning, ''printer paused''),
     (wsStatus AND c PRINTER_STATUS_ERROR \<noteq> 0, True, VendorStateError, ''printer error''),
     (wsStatus AND c PRINTER_STATUS_PENDING_DELETION \<noteq> 0, True, VendorStateError,
        ''printer is being deleted''),
     (wsStatus AND c PRINTER_STATUS_PAPER_JAM \<noteq> 0, True, VendorStateError, ''paper jam''),
     (wsStatus AND c PRINTER_STATUS_PAPER_OUT \<noteq> 0, True, VendorStateError, ''paper out''),
     (wsStatus AND c PRINTER_STATUS_MANUAL_FEED \<noteq> 0, False, VendorStateInfo,
        ''manual feed mode''),
     (wsStatus AND c PRINTER_STATUS_PAPER_PROBLEM \<noteq> 0, True, VendorStateError,
        ''paper problem''),
     (wsStatus AND c PRINTER_STATUS_OFFLINE \<noteq> 0
        \<or> wsAttributes AND c PRINTER_ATTRIBUTE_WORK_OFFLINE \<noteq> 0,
        True, VendorStateError, ''printer is offline''),
     (wsStatus AND c PRINTER_STATUS_IO_ACTIVE \<noteq> 0, False, VendorStateInfo,
        ''active I/O state''),
     (wsStatus AND c PRINTER_STATUS_BUSY \<noteq> 0, False, VendorStateInfo, ''busy''),
     (wsStatus AND c PRINTER_STATUS_OUTPUT_BIN_FULL \<noteq> 0, True, VendorStateError,
        ''output bin is full''),
     (wsStatus AND c PRINTER_STATUS_NOT_AVAILABLE \<noteq> 0, True, VendorStateError,
        ''printer not available''),
     (wsStatus AND c PRINTER_STATUS_WAITING \<noteq> 0, False, VendorStateError, ''waiting''),
     (wsStatus AND c PRINTER_STATUS_INITIALIZING \<noteq> 0, False, VendorStateInfo,
        ''intitializing''),
     (wsStatus AND c PRINTER_STATUS_WARMING_UP \<noteq> 0, False, VendorStateInfo,
        ''warming up''),
     (wsStatus AND c PRINTER_STATUS_TONER_LOW \<noteq> 0, False, VendorStateWarning,
        ''toner low''),
     (wsStatus AND c PRINTER_STATUS_NO_TONER \<noteq> 0, True, VendorStateError, ''no toner''),
     (wsStatus AND c PRINTER_STATUS_PAGE_PUNT \<noteq> 0, True, VendorStateError,
        ''cannot print the current page''),
     (wsStatus AND c PRINTER_STATUS_USER_INTERVENTION \<noteq> 0, True, VendorStateError,
        ''user intervention required''),
     (wsStatus AND c PRINTER_STATUS_OUT_OF_MEMORY \<noteq> 0, True, VendorStateError,
        ''out of memory''),
     (wsStatus AND c PRINTER_STATUS_DOOR_OPEN \<noteq> 0, True, VendorStateError, ''door open''),
     (wsStatus AND c PRINTER_STATUS_SERVER_UNKNOWN \<noteq> 0, False, VendorStateError,
        ''printer status unknown''),
     (wsStatus AND c PRINTER_STATUS_POWER_SAVE \<noteq> 0, False, VendorStateInfo,
        ''power save mode'')]"

fun applyCheck ::
  "CloudDeviceState \<times> VendorStateItem list \<Rightarrow> statusCheck \<Rightarrow>
   CloudDeviceState \<times> VendorStateItem list" where
  "applyCheck (st, items) (test, stops, sev, txt) =
    (if test
     then (if stops then CloudDeviceStateStopped else st,
           items @ [\<lparr>vsi_State = sev, vsi_DescriptionLocalized = txt\<rparr>])
     else (st, items))"

definition convertPrinterState ::
  "(printer_flag \<Rightarrow> uint32) \<Rightarrow> uint32 \<Rightarrow> uint32 \<Rightarrow> PrinterStateSection" where
  "convertPrinterState c wsStatus wsAttributes =
    (let st0 = (if wsStatus AND (c PRINTER_STATUS_PRINTING OR c PRINTER_STATUS_PROCESSING) \<noteq> 0
                then CloudDeviceStateProcessing else CloudDeviceStateIdle);
         fin = foldl applyCheck (st0, []) (printerStatusChecks c wsStatus wsAttributes)
     in \<lparr>pss_State = fst fin,
         pss_VendorState = (if length (snd fin) = 0 then None else Some \<lparr>Item = snd fin\<rparr>)\<rparr>)"

section \<open>Job state: \<open>convertJobState\<close> and \<open>GetJobState\<close>\<close>

datatype JobStateType =
    JobStateDraft | JobStateHeld | JobStateQueued | JobStateInProgress
  | JobStateStopped | JobStateDone | JobStateAborted

datatype DeviceActionCause = DeviceActionCausePrintFailure | DeviceActionCauseOther
datatype UserActionCause = UserActionCauseCanceled | UserActionCausePaused | UserActionCauseOther
datatype DeviceStateCause = DeviceStateCauseInputTray | DeviceStateCauseOther

text \<open>The three causes are pointers in the source: \<open>None\<close> is \<open>nil\<close>.\<close>

record JobState =
  js_Type :: JobStateType
  js_UserActionCause :: "UserActionCause option"
  js_DeviceStateCause :: "DeviceStateCause option"
  js_DeviceActionCause :: "DeviceActionCause option"

text \<open>
  \<open>var state model.JobState\<close> is the zero value; each branch of the source assigns the
  type and at most one cause. The zero value of the type (the empty string of the source)
  is never returned, so the starting value of \<open>js_Type\<close> is not observable.
\<close>

definition zeroJobState :: JobState where
  "zeroJobState = \<lparr>js_Type = JobStateDraft, js_UserActionCause = None,
     js_DeviceStateCause = None, js_DeviceActionCause = None\<rparr>"

definition convertJobState :: "(job_flag \<Rightarrow> uint32) \<Rightarrow> uint32 \<Rightarrow> JobState" where
  "convertJobState c wsStatus =
    (if wsStatus AND (c JOB_STATUS_SPOOLING OR c JOB_STATUS_PRINTING) \<noteq> 0
     then zeroJobState\<lparr>js_Type := JobStateInProgress\<rparr>
     else if wsStatus AND (c JOB_STATUS_PRINTED OR c JOB_STATUS_COMPLETE) \<noteq> 0
     then zeroJobState\<lparr>js_Type := JobStateDone\<rparr>
     else if wsStatus AND c JOB_STATUS_PAUSED \<noteq> 0 \<or> wsStatus = 0
     then zeroJobState\<lparr>js_Type := JobStateDone\<rparr>
     else if wsStatus AND c JOB_STATUS_ERROR \<noteq> 0
     then zeroJobState\<lparr>js_Type := JobStateAborted,
            js_DeviceActionCause := Some DeviceActionCausePrintFailure\<rparr>
     else if wsStatus AND (c JOB_STATUS_DELETING OR c JOB_STATUS_DELETED) \<noteq> 0
     then zeroJobState\<lparr>js_Type := JobStateAborted,
            js_UserActionCause := Some UserActionCauseCanceled\<rparr>
     else if wsStatus AND (c JOB_STATUS_OFFLINE OR c JOB_STATUS_PAPEROUT
                OR c JOB_STATUS_BLOCKED_DEVQ OR c JOB_STATUS_USER_INTERVENTION) \<noteq> 0
     then zeroJobState\<lparr>js_Type := JobStateStopped,
            js_DeviceStateCause := Some DeviceStateCauseOther\<rparr>
     else zeroJobState\<lparr>js_Type := JobStateAborted,
            js_DeviceActionCause := Some DeviceActionCauseOther\<rparr>)"

text \<open>
  The precedence of the job states as the specification words it, one bit at a time:
  \<open>hasBit w m\<close> says that the bitfield \<open>w\<close> has a bit of the mask \<open>m\<close>.
\<close>

definition hasBit :: "uint32 \<Rightarrow> uint32 \<Rightarrow> bool" where
  "hasBit w m = (w AND m \<noteq> 0)"

definition jobStatePrecedence :: "(job_flag \<Rightarrow> uint32) \<Rightarrow> uint32 \<Rightarrow> JobState" where
  "jobStatePrecedence c w =
    (if hasBit w (c JOB_STATUS_SPOOLING) \<or> hasBit w (c JOB_STATUS_PRINTING)
     then \<lparr>js_Type = JobStateInProgress, js_UserActionCause = None,
            js_DeviceStateCause = None, js_DeviceActionCause = None\<rparr>
     else if hasBit w (c JOB_STATUS_PRINTED) \<or> hasBit w (c JOB_STATUS_COMPLETE)
     then \<lparr>js_Type = JobStateDone, js_UserActionCause = None,
            js_DeviceStateCause = None, js_DeviceActionCause = None\<rparr>
     else if hasBit w (c JOB_STATUS_PAUSED) \<or> w = 0
     then \<lparr>js_Type = JobStateDone, js_UserActionCause = None,
            js_DeviceStateCause = None, js_DeviceActionCause = None\<rparr>
     else if hasBit w (c JOB_STATUS_ERROR)
     then \<lparr>js_Type = JobStateAborted, js_UserActionCause = None,
            js_DeviceStateCause = None,
            js_DeviceActionCause = Some DeviceActionCausePrintFailure\<rparr>
     else if hasBit w (c JOB_STATUS_DELETING) \<or> hasBit w (c JOB_STATUS_DELETED)
     then \<lparr>js_Type = JobStateAborted, js_UserActionCause = Some UserActionCauseCanceled,
            js_DeviceStateCause = None, js_DeviceActionCause = None\<rparr>
     else if hasBit w (c JOB_STATUS_OFFLINE) \<or> hasBit w (c JOB_STATUS_PAPEROUT)
           \<or> hasBit w (c JOB_STATUS_BLOCKED_DEVQ) \<or> hasBit w (c JOB_STATUS_USER_INTERVENTION)
     then \<lparr>js_Type = JobStateStopped, js_UserActionCause = None,
            js_DeviceStateCause = Some DeviceStateCauseOther, js_DeviceActionCause = None\<rparr>
     else \<lparr>js_Type = JobStateAborted, js_UserActionCause = None,
            js_DeviceStateCause = None, js_DeviceActionCause = Some DeviceActionCauseOther\<rparr>)"

text \<open>
  The spooler as \<open>GetJobState\<close> sees it: the outcome of \<open>OpenPrinter\<close> for a printer
  name (a handle, here a number, or an error) and of \<open>GetJob\<close> for a handle and a job id
  (the status bitfield of the job, or an error).
\<close>

record spooler =
  OpenPrinter :: "string \<Rightarrow> error + nat"
  GetJob :: "nat \<Rightarrow> int32 \<Rightarrow> error + uint32"

record PrintJobStateDiff =
  pjsd_State :: "JobState option"

definition GetJobState ::
  "(job_flag \<Rightarrow> uint32) \<Rightarrow> spooler \<Rightarrow> string \<Rightarrow> uint32 \<Rightarrow> error + PrintJobStateDiff" where
  "GetJobState c ws printerName jobID =
    (case OpenPrinter ws printerName of
       Inl err \<Rightarrow> Inl err
     | Inr hPrinter \<Rightarrow>
        (case GetJob ws hPrinter jobID of
           Inl err \<Rightarrow>
             (if err = ERROR_INVALID_PARAMETER
              then Inr \<lparr>pjsd_State = Some (zeroJobState\<lparr>js_Type := JobStateAborted,
                          js_DeviceActionCause := Some DeviceActionCauseOther\<rparr>)\<rparr>
              else Inl err)
         | Inr status \<Rightarrow> Inr \<lparr>pjsd_State = Some (convertJobState c status)\<rparr>))"

section \<open>Device settings and the printer description\<close>

text \<open>
  Modelled from the spec: the device settings type \<open>DevMode\<close> and its \<open>Get\<close>,
  \<open>Set\<close> and \<open>Clear\<close> accessors are declared outside the files at hand. The
  specification calls them the native settings of one printer, whose fields are set or
  cleared; the source reads a field as \<open>value, ok := devMode.GetX()\<close> and uses the
  value only when \<open>ok\<close> holds. A field is therefore an optional \<open>int16\<close>: \<open>Some v\<close>
  is a set field (\<open>GetX\<close> returns \<open>v, true\<close>), \<open>None\<close> a cleared one (\<open>GetX\<close>
  returns \<open>false\<close>); \<open>SetX\<close> stores \<open>Some\<close>, \<open>ClearX\<close> stores \<open>None\<close>, and no
  accessor touches another field.
\<close>

record DevMode =
  dmOrientation :: "int16 option"
  dmPaperSize :: "int16 option"
  dmPaperLength :: "int16 option"
  dmPaperWidth :: "int16 option"
  dmCopies :: "int16 option"
  dmColor :: "int16 option"
  dmDuplex :: "int16 option"
  dmCollate :: "int16 option"

definition SetColor :: "int16 \<Rightarrow> DevMode \<Rightarrow> DevMode" where
  "SetColor v dm = dm\<lparr>dmColor := Some v\<rparr>"

definition SetDuplex :: "int16 \<Rightarrow> DevMode \<Rightarrow> DevMode" where
  "SetDuplex v dm = dm\<lparr>dmDuplex := Some v\<rparr>"

definition SetOrientation :: "int16 \<Rightarrow> DevMode \<Rightarrow> DevMode" where
  "SetOrientation v dm = dm\<lparr>dmOrientation := Some v\<rparr>"

definition SetCopies :: "int16 \<Rightarrow> DevMode \<Rightarrow> DevMode" where
  "SetCopies v dm = dm\<lparr>dmCopies := Some v\<rparr>"

definition SetCollate :: "int16 \<Rightarrow> DevMode \<Rightarrow> DevMode" where
  "SetCollate v dm = dm\<lparr>dmCollate := Some v\<rparr>"

definition SetPaperSize :: "int16 \<Rightarrow> DevMode \<Rightarrow> DevMode" where
  "SetPaperSize v dm = dm\<lparr>dmPaperSize := Some v\<rparr>"

definition SetPaperLength :: "int16 \<Rightarrow> DevMode \<Rightarrow> DevMode" where
  "SetPaperLength v dm = dm\<lparr>dmPaperLength := Some v\<rparr>"

definition SetPaperWidth :: "int16 \<Rightarrow> DevMode \<Rightarrow> DevMode" where
  "SetPaperWidth v dm = dm\<lparr>dmPaperWidth := Some v\<rparr>"

definition ClearPaperSize :: "DevMode \<Rightarrow> DevMode" where
  "ClearPaperSize dm = dm\<lparr>dmPaperSize := None\<rparr>"

definition ClearPaperLength :: "DevMode \<Rightarrow> DevMode" where
  "ClearPaperLength dm = dm\<lparr>dmPaperLength := None\<rparr>"

definition ClearPaperWidth :: "DevMode \<Rightarrow> DevMode" where
  "ClearPaperWidth dm = dm\<lparr>dmPaperWidth := None\<rparr>"

text \<open>
  The \<open>DMCOLOR_*\<close>, \<open>DMDUP_*\<close>, \<open>DMORIENT_*\<close> and \<open>DMCOLLATE_*\<close> codes are declared
  outside the files at hand too: their values are a parameter, and \<open>winspool_dm\<close> gives
  the values of the Windows headers.
\<close>

datatype dm_const =
    DMCOLOR_COLOR | DMCOLOR_MONOCHROME
  | DMDUP_SIMPLEX | DMDUP_VERTICAL | DMDUP_HORIZONTAL
  | DMORIENT_PORTRAIT | DMORIENT_LANDSCAPE
  | DMCOLLATE_TRUE | DMCOLLATE_FALSE

fun winspool_dm :: "dm_const \<Rightarrow> int16" where
  "winspool_dm DMCOLOR_MONOCHROME = 1"
| "winspool_dm DMCOLOR_COLOR = 2"
| "winspool_dm DMDUP_SIMPLEX = 1"
| "winspool_dm DMDUP_VERTICAL = 2"
| "winspool_dm DMDUP_HORIZONTAL = 3"
| "winspool_dm DMORIENT_PORTRAIT = 1"
| "winspool_dm DMORIENT_LANDSCAPE = 2"
| "winspool_dm DMCOLLATE_FALSE = 0"
| "winspool_dm DMCOLLATE_TRUE = 1"

subsection \<open>The description of a printer\<close>

datatype ColorType =
    ColorTypeStandardColor | ColorTypeStandardMonochrome
  | ColorTypeCustomColor | ColorTypeCustomMonochrome | ColorTypeAuto

text \<open>
  The duplex type is a string type in the source; \<open>DuplexOther\<close> stands for a string
  that is none of the three declared values, as a ticket may carry.
\<close>

datatype DuplexType = DuplexNoDuplex | DuplexLongEdge | DuplexShortEdge | DuplexOther

datatype PageOrientationType =
  PageOrientationPortrait | PageOrientationLandscape | PageOrientationAuto

datatype FitToPageType =
    FitToPageNoFitting | FitToPageFitToPage | FitToPageGrowToPage
  | FitToPageShrinkToPage | FitToPageFillPage

datatype MediaSizeName = MediaSizeCustom

record ColorOption =
  co_VendorID :: string
  co_Type :: ColorType
  co_IsDefault :: bool
  co_CustomDisplayNameLocalized :: string

record DuplexOption =
  do_Type :: DuplexType
  do_IsDefault :: bool

record PageOrientationOption =
  poo_Type :: PageOrientationType
  poo_IsDefault :: bool

record Copies =
  cp_Default :: int32
  cp_Max :: int32

record MediaSizeOption =
  mso_Name :: MediaSizeName
  mso_WidthMicrons :: int32
  mso_HeightMicrons :: int32
  mso_IsDefault :: bool
  mso_VendorID :: string
  mso_CustomDisplayNameLocalized :: string

record FitToPageOption =
  ftp_Type :: FitToPageType
  ftp_IsDefault :: bool

text \<open>
  Every capability group of the description is a pointer in the source (\<open>None\<close> is
  \<open>nil\<close>, a group that is not advertised). A group of options is the list of its
  \<open>Option\<close> field; the collate group is its \<open>Default\<close> field.
\<close>

record PrinterDescriptionSection =
  Color :: "ColorOption list option"
  Duplex :: "DuplexOption list option"
  PageOrientation :: "PageOrientationOption list option"
  Copies :: "Copies option"
  FitToPage :: "FitToPageOption list option"
  MediaSize :: "MediaSizeOption list option"
  Collate :: "bool option"

subsection \<open>Decimal strings: \<open>strconv.FormatUint\<close> and \<open>strconv.FormatInt\<close> in base 10\<close>

definition digitChar :: "nat \<Rightarrow> char" where
  "digitChar n = char_of (48 + n)"

function FormatUint :: "nat \<Rightarrow> string" where
  "FormatUint n = (if n < 10 then [digitChar n] else FormatUint (n div 10) @ [digitChar (n mod 10)])"
  by pat_completeness auto
termination
  by (relation "measure id") auto

declare FormatUint.simps [simp del]

definition FormatInt :: "int \<Rightarrow> string" where
  "FormatInt i = (if i < 0 then CHR ''-'' # FormatUint (nat (- i)) else FormatUint (nat i))"

subsection \<open>Capability queries\<close>

datatype capability =
    DC_PAPERNAMES | DC_PAPERS | DC_PAPERSIZE
  | DC_DUPLEX | DC_ORIENTATION | DC_COPIES | DC_COLLATE

text \<open>
  The outcome of each capability query for a printer name, a port name and a
  capability: the result, or the error of the native call.
\<close>

record capabilities =
  DeviceCapabilitiesInt32 :: "string \<Rightarrow> string \<Rightarrow> capability \<Rightarrow> error + int32"
  DeviceCapabilitiesStrings :: "string \<Rightarrow> string \<Rightarrow> capability \<Rightarrow> nat \<Rightarrow> error + string list"
  DeviceCapabilitiesUint16Array :: "string \<Rightarrow> string \<Rightarrow> capability \<Rightarrow> error + uint16 list"
  DeviceCapabilitiesInt32Pairs :: "string \<Rightarrow> string \<Rightarrow> capability \<Rightarrow> error + int32 list"

section \<open>Media sizes: \<open>convertMediaSize\<close>\<close>

text \<open>
  The test of the loop body that decides \<open>def\<close> once \<open>foundDef\<close> is false: the paper
  code of the device settings against \<open>papers[i]\<close> when the settings carry a paper code
  (\<open>uint16(defSize)\<close> keeps the bits), otherwise the length and the width of the settings
  (\<open>int32(defLength)\<close> extends the sign) against the converted \<open>length\<close> and \<open>width\<close> (\<open>length'\<close> here, as
  \<open>length\<close> is the length of a list).
\<close>

definition isDeviceDefault :: "DevMode \<Rightarrow> uint16 \<Rightarrow> int32 \<Rightarrow> int32 \<Rightarrow> bool" where
  "isDeviceDefault devMode paper width length' =
    (case dmPaperSize devMode of
       Some defSize \<Rightarrow> defSize = paper
     | None \<Rightarrow>
        (case dmPaperLength devMode of
           None \<Rightarrow> False
         | Some defLength \<Rightarrow>
            scast defLength = length' \<and>
            (case dmPaperWidth devMode of
               None \<Rightarrow> False
             | Some defWidth \<Rightarrow> scast defWidth = width)))"

text \<open>
  One round of \<open>for i := range names\<close>, on the pair of \<open>ms.Option\<close> and \<open>foundDef\<close>.
  The guard of \<open>convertMediaSize\<close> keeps \<open>i\<close>, \<open>2*i\<close> and \<open>2*i+1\<close> in range.
\<close>

definition mediaSizeRound ::
  "DevMode \<Rightarrow> string list \<Rightarrow> uint16 list \<Rightarrow> int32 list \<Rightarrow>
   MediaSizeOption list \<times> bool \<Rightarrow> nat \<Rightarrow> MediaSizeOption list \<times> bool" where
  "mediaSizeRound devMode names papers sizes acc i =
    (if names ! i = [] then acc
     else
       (let width = sizes ! (2 * i) * 100;
            length' = sizes ! (2 * i + 1) * 100;
            def = (\<not> snd acc \<and> isDeviceDefault devMode (papers ! i) width length');
            opt = \<lparr>mso_Name = MediaSizeCustom,
                   mso_WidthMicrons = width,
                   mso_HeightMicrons = length',
                   mso_IsDefault = def,
                   mso_VendorID = FormatUint (unat (papers ! i)),
                   mso_CustomDisplayNameLocalized = names ! i\<rparr>
        in (fst acc @ [opt], snd acc \<or> def)))"

text \<open>
  The block after the loop: with no default found and a non-empty list, the first option
  becomes the default.
\<close>

definition defaultToFirst :: "MediaSizeOption list \<times> bool \<Rightarrow> MediaSizeOption list" where
  "defaultToFirst fin =
    (if \<not> snd fin \<and> length (fst fin) > 0
     then (fst fin)[0 := (fst fin ! 0)\<lparr>mso_IsDefault := True\<rparr>]
     else fst fin)"

definition convertMediaSize ::
  "capabilities \<Rightarrow> string \<Rightarrow> string \<Rightarrow> DevMode \<Rightarrow> error + MediaSizeOption list option" where
  "convertMediaSize caps printerName portName devMode =
    (case DeviceCapabilitiesStrings caps printerName portName DC_PAPERNAMES (64 * 2) of
       Inl err \<Rightarrow> Inl err
     | Inr names \<Rightarrow>
    (case DeviceCapabilitiesUint16Array caps printerName portName DC_PAPERS of
       Inl err \<Rightarrow> Inl err
     | Inr papers \<Rightarrow>
    (case DeviceCapabilitiesInt32Pairs caps printerName portName DC_PAPERSIZE of
       Inl err \<Rightarrow> Inl err
     | Inr sizes \<Rightarrow>
        (if length names \<noteq> length papers \<or> length names \<noteq> length sizes div 2
         then Inr None
         else Inr (Some (defaultToFirst
                (foldl (mediaSizeRound devMode names papers sizes) ([], False)
                   [0 ..< length names])))))))"

section \<open>Printer enumeration: \<open>GetPrinters\<close>\<close>

text \<open>\<open>strings.SplitN(driverName, " ", 2)\<close>: the text before the first space and, when
  there is a space, the text after it.\<close>

definition SplitN2 :: "string \<Rightarrow> string list" where
  "SplitN2 s =
    (if CHR '' '' \<in> set s
     then [takeWhile (\<lambda>ch. ch \<noteq> CHR '' '') s, tl (dropWhile (\<lambda>ch. ch \<noteq> CHR '' '') s)]
     else [s])"

definition getManModel :: "string \<Rightarrow> string \<times> string" where
  "getManModel driverName =
    (let parts = SplitN2 driverName;
         man = (if length parts > 0 \<and> length (parts ! 0) > 0 then parts ! 0 else ''Google'');
         model = (if length parts > 1 \<and> length (parts ! 1) > 0 then parts ! 1
                  else ''Cloud Printer'')
     in (man, model))"

record PrinterInfo2 =
  pi2_PrinterName :: string
  pi2_PortName :: string
  pi2_DriverName :: string
  pi2_Location :: string
  pi2_Status :: uint32
  pi2_Attributes :: uint32
  pi2_DevMode :: DevMode

record Printer =
  Name :: string
  DefaultDisplayName :: string
  Manufacturer :: string
  Model :: string
  State :: PrinterStateSection
  Description :: PrinterDescriptionSection
  Tags :: "(string \<times> string) list"

text \<open>
  The body of the loop of \<open>GetPrinters\<close>, one definition for each capability group in
  the order of the source. The color group is read from the device settings alone.
\<close>

definition describeColor :: "(dm_const \<Rightarrow> int16) \<Rightarrow> DevMode \<Rightarrow> ColorOption list option" where
  "describeColor d devMode =
    (case dmColor devMode of
       None \<Rightarrow> None
     | Some def \<Rightarrow>
        (if def = d DMCOLOR_COLOR
         then Some
           [\<lparr>co_VendorID = FormatInt (sint (d DMCOLOR_COLOR)),
             co_Type = ColorTypeStandardColor,
             co_IsDefault = True,
             co_CustomDisplayNameLocalized = ''Color''\<rparr>,
            \<lparr>co_VendorID = FormatInt (sint (d DMCOLOR_MONOCHROME)),
             co_Type = ColorTypeStandardMonochrome,
             co_IsDefault = False,
             co_CustomDisplayNameLocalized = ''Monochrome''\<rparr>]
         else if def = d DMCOLOR_MONOCHROME
         then Some
           [\<lparr>co_VendorID = FormatInt (sint (d DMCOLOR_MONOCHROME)),
             co_Type = ColorTypeStandardMonochrome,
             co_IsDefault = True,
             co_CustomDisplayNameLocalized = ''Monochrome''\<rparr>]
         else None))"

definition describeDuplex ::
  "(dm_const \<Rightarrow> int16) \<Rightarrow> capabilities \<Rightarrow> string \<Rightarrow> string \<Rightarrow> DevMode \<Rightarrow>
   error + DuplexOption list option" where
  "describeDuplex d caps printerName portName devMode =
    (case dmDuplex devMode of
       None \<Rightarrow> Inr None
     | Some def \<Rightarrow>
        (case DeviceCapabilitiesInt32 caps printerName portName DC_DUPLEX of
           Inl err \<Rightarrow> Inl err
         | Inr duplex \<Rightarrow>
            Inr (if duplex = 1
                 then Some
                   [\<lparr>do_Type = DuplexNoDuplex, do_IsDefault = (def = d DMDUP_SIMPLEX)\<rparr>,
                    \<lparr>do_Type = DuplexLongEdge, do_IsDefault = (def = d DMDUP_VERTICAL)\<rparr>,
                    \<lparr>do_Type = DuplexShortEdge, do_IsDefault = (def = d DMDUP_HORIZONTAL)\<rparr>]
                 else None)))"

definition describeOrientation ::
  "(dm_const \<Rightarrow> int16) \<Rightarrow> capabilities \<Rightarrow> string \<Rightarrow> string \<Rightarrow> DevMode \<Rightarrow>
   error + PageOrientationOption list option" where
  "describeOrientation d caps printerName portName devMode =
    (case dmOrientation devMode of
       None \<Rightarrow> Inr None
     | Some def \<Rightarrow>
        (case DeviceCapabilitiesInt32 caps printerName portName DC_ORIENTATION of
           Inl err \<Rightarrow> Inl err
         | Inr orientation \<Rightarrow>
            Inr (if orientation = 90 \<or> orientation = 270
                 then Some
                   [\<lparr>poo_Type = PageOrientationPortrait,
                     poo_IsDefault = (def = d DMORIENT_PORTRAIT)\<rparr>,
                    \<lparr>poo_Type = PageOrientationLandscape,
                     poo_IsDefault = (def = d DMORIENT_LANDSCAPE)\<rparr>]
                 else None)))"

definition describeCopies ::
  "capabilities \<Rightarrow> string \<Rightarrow> string \<Rightarrow> DevMode \<Rightarrow> error + Copies option" where
  "describeCopies caps printerName portName devMode =
    (case dmCopies devMode of
       None \<Rightarrow> Inr None
     | Some def \<Rightarrow>
        (case DeviceCapabilitiesInt32 caps printerName portName DC_COPIES of
           Inl err \<Rightarrow> Inl err
         | Inr copies \<Rightarrow>
            Inr (if 1 < sint copies
                 then Some \<lparr>cp_Default = scast def, cp_Max = copies\<rparr>
                 else None)))"

definition describeCollate ::
  "(dm_const \<Rightarrow> int16) \<Rightarrow> capabilities \<Rightarrow> string \<Rightarrow> string \<Rightarrow> DevMode \<Rightarrow>
   error + bool option" where
  "describeCollate d caps printerName portName devMode =
    (case dmCollate devMode of
       None \<Rightarrow> Inr None
     | Some def \<Rightarrow>
        (case DeviceCapabilitiesInt32 caps printerName portName DC_COLLATE of
           Inl err \<Rightarrow> Inl err
         | Inr collate \<Rightarrow>
            Inr (if collate = 1 then Some (def = d DMCOLLATE_TRUE) else None)))"

definition describePrinter ::
  "(printer_flag \<Rightarrow> uint32) \<Rightarrow> (dm_const \<Rightarrow> int16) \<Rightarrow> capabilities \<Rightarrow> PrinterInfo2 \<Rightarrow>
   error + Printer" where
  "describePrinter c d caps pi2 =
    (let printerName = pi2_PrinterName pi2;
         portName = pi2_PortName pi2;
         devMode = pi2_DevMode pi2;
         mm = getManModel (pi2_DriverName pi2)
     in
     case describeDuplex d caps printerName portName devMode of
       Inl err \<Rightarrow> Inl err
     | Inr duplex \<Rightarrow>
    (case describeOrientation d caps printerName portName devMode of
       Inl err \<Rightarrow> Inl err
     | Inr orientation \<Rightarrow>
    (case describeCopies caps printerName portName devMode of
       Inl err \<Rightarrow> Inl err
     | Inr copies \<Rightarrow>
    (case convertMediaSize caps printerName portName devMode of
       Inl err \<Rightarrow> Inl err
     | Inr mediaSize \<Rightarrow>
    (case describeCollate d caps printerName portName devMode of
       Inl err \<Rightarrow> Inl err
     | Inr collate \<Rightarrow>
        Inr \<lparr>Name = printerName,
             DefaultDisplayName = printerName,
             Manufacturer = fst mm,
             Model = snd mm,
             State = convertPrinterState c (pi2_Status pi2) (pi2_Attributes pi2),
             Description =
               \<lparr>Color = describeColor d devMode,
                Duplex = duplex,
                PageOrientation = orientation,
                Copies = copies,
                FitToPage = None,
                MediaSize = mediaSize,
                Collate = collate\<rparr>,
             Tags = [(''printer-location'', pi2_Location pi2)]\<rparr>)))))"

fun describePrinters ::
  "(printer_flag \<Rightarrow> uint32) \<Rightarrow> (dm_const \<Rightarrow> int16) \<Rightarrow> capabilities \<Rightarrow> PrinterInfo2 list \<Rightarrow>
   error + Printer list" where
  "describePrinters c d caps [] = Inr []"
| "describePrinters c d caps (pi2 # pi2s) =
    (case describePrinter c d caps pi2 of
       Inl err \<Rightarrow> Inl err
     | Inr printer \<Rightarrow>
        (case describePrinters c d caps pi2s of
           Inl err \<Rightarrow> Inl err
         | Inr printers \<Rightarrow> Inr (printer # printers)))"

definition GetPrinters ::
  "(printer_flag \<Rightarrow> uint32) \<Rightarrow> (dm_const \<Rightarrow> int16) \<Rightarrow> capabilities \<Rightarrow>
   error + PrinterInfo2 list \<Rightarrow> error + Printer list" where
  "GetPrinters c d caps EnumPrinters2 =
    (case EnumPrinters2 of
       Inl err \<Rightarrow> Inl err
     | Inr pi2s \<Rightarrow> describePrinters c d caps pi2s)"

section \<open>Print submission: \<open>newJobContext\<close>, \<open>free\<close> and \<open>Print\<close>\<close>

subsection \<open>The job ticket\<close>

record ColorTicketItem =
  cti_VendorID :: string
  cti_Type :: ColorType

record MediaSizeTicketItem =
  msti_WidthMicrons :: int32
  msti_HeightMicrons :: int32
  msti_IsContinuousFeed :: bool
  msti_VendorID :: string

text \<open>
  Every item of the ticket is a pointer in the source (\<open>None\<close> is \<open>nil\<close>, an attribute
  the ticket does not request). The duplex, orientation and fit-to-page items hold a type,
  the copies item a count, the collate item a flag.
\<close>

record JobTicket =
  t_Color :: "ColorTicketItem option"
  t_Duplex :: "DuplexType option"
  t_PageOrientation :: "PageOrientationType option"
  t_Copies :: "int32 option"
  t_FitToPage :: "FitToPageType option"
  t_MediaSize :: "MediaSizeTicketItem option"
  t_Collate :: "bool option"

subsection \<open>\<open>strconv.ParseInt(s, 10, 16)\<close>\<close>

text \<open>
  The library function as \<open>Print\<close> calls it, in base 10 with 16 bits. \<open>ParseUint\<close>
  reads the digits from the left: a byte that is not a decimal digit is a syntax error, a
  value above \<open>65535\<close> a range error, whichever comes first. \<open>ParseInt\<close> takes one
  sign off; an error of \<open>ParseUint\<close> is its error (a range error stays one), and a value
  outside \<open>-32768 .. 32767\<close> is a range error.
\<close>

fun parseUintLoop :: "nat \<Rightarrow> string \<Rightarrow> error + nat" where
  "parseUintLoop n [] = Inr n"
| "parseUintLoop n (ch # rest) =
    (if 48 \<le> (of_char ch :: nat) \<and> (of_char ch :: nat) \<le> 57
     then (let n1 = n * 10 + (of_char ch - 48)
           in if n1 > 65535 then Inl RangeError else parseUintLoop n1 rest)
     else Inl SyntaxError)"

definition ParseUint16 :: "string \<Rightarrow> error + nat" where
  "ParseUint16 s = (if s = [] then Inl SyntaxError else parseUintLoop 0 s)"

definition ParseInt16 :: "string \<Rightarrow> error + int" where
  "ParseInt16 s =
    (if s = [] then Inl SyntaxError
     else
       (let neg = (hd s = CHR ''-'');
            body = (if hd s = CHR ''+'' \<or> hd s = CHR ''-'' then tl s else s)
        in case ParseUint16 body of
             Inl err \<Rightarrow> Inl err
           | Inr un \<Rightarrow>
               (if \<not> neg \<and> un \<ge> 32768 then Inl RangeError
                else if neg \<and> un > 32768 then Inl RangeError
                else Inr (if neg then - int un else int un))))"

subsection \<open>Ticket resolution (the blocks of \<open>Print\<close> on \<open>jobContext.devMode\<close>)\<close>

definition colorValueByType :: "(dm_const \<Rightarrow> int16) \<Rightarrow> ColorType \<Rightarrow> int16 option" where
  "colorValueByType d ty =
    (case ty of
       ColorTypeStandardColor \<Rightarrow> Some (d DMCOLOR_COLOR)
     | ColorTypeStandardMonochrome \<Rightarrow> Some (d DMCOLOR_MONOCHROME)
     | _ \<Rightarrow> None)"

definition duplexValueByType :: "(dm_const \<Rightarrow> int16) \<Rightarrow> DuplexType \<Rightarrow> int16 option" where
  "duplexValueByType d ty =
    (case ty of
       DuplexNoDuplex \<Rightarrow> Some (d DMDUP_SIMPLEX)
     | DuplexLongEdge \<Rightarrow> Some (d DMDUP_VERTICAL)
     | DuplexShortEdge \<Rightarrow> Some (d DMDUP_HORIZONTAL)
     | DuplexOther \<Rightarrow> None)"

definition pageOrientationByType ::
  "(dm_const \<Rightarrow> int16) \<Rightarrow> PageOrientationType \<Rightarrow> int16 option" where
  "pageOrientationByType d ty =
    (case ty of
       PageOrientationPortrait \<Rightarrow> Some (d DMORIENT_PORTRAIT)
     | PageOrientationLandscape \<Rightarrow> Some (d DMORIENT_LANDSCAPE)
     | PageOrientationAuto \<Rightarrow> None)"

text \<open>
  Each block is guarded by \<open>ticket.X != nil && printer.Description.X != nil\<close>. The
  description of the printer is taken by value: \<open>GetPrinters\<close> always sets the pointer.
\<close>

definition resolveColor ::
  "(dm_const \<Rightarrow> int16) \<Rightarrow> JobTicket \<Rightarrow> PrinterDescriptionSection \<Rightarrow> DevMode \<Rightarrow>
   error + DevMode" where
  "resolveColor d ticket desc devMode =
    (case t_Color ticket of
       None \<Rightarrow> Inr devMode
     | Some item \<Rightarrow>
        (if Color desc = None then Inr devMode
         else
           (case colorValueByType d (cti_Type item) of
              Some color \<Rightarrow> Inr (SetColor color devMode)
            | None \<Rightarrow>
               (if cti_VendorID item \<noteq> []
                then (case ParseInt16 (cti_VendorID item) of
                        Inl err \<Rightarrow> Inl err
                      | Inr v \<Rightarrow> Inr (SetColor (word_of_int v) devMode))
                else Inr devMode))))"

definition resolveDuplex ::
  "(dm_const \<Rightarrow> int16) \<Rightarrow> JobTicket \<Rightarrow> PrinterDescriptionSection \<Rightarrow> DevMode \<Rightarrow> DevMode" where
  "resolveDuplex d ticket desc devMode =
    (case t_Duplex ticket of
       None \<Rightarrow> devMode
     | Some ty \<Rightarrow>
        (if Duplex desc = None then devMode
         else (case duplexValueByType d ty of
                 Some duplex \<Rightarrow> SetDuplex duplex devMode
               | None \<Rightarrow> devMode)))"

definition resolveOrientation ::
  "(dm_const \<Rightarrow> int16) \<Rightarrow> JobTicket \<Rightarrow> PrinterDescriptionSection \<Rightarrow> DevMode \<Rightarrow> DevMode" where
  "resolveOrientation d ticket desc devMode =
    (case t_PageOrientation ticket of
       None \<Rightarrow> devMode
     | Some ty \<Rightarrow>
        (if PageOrientation desc = None then devMode
         else (case pageOrientationByType d ty of
                 Some pageOrientation \<Rightarrow> SetOrientation pageOrientation devMode
               | None \<Rightarrow> devMode)))"

definition resolveCopies :: "JobTicket \<Rightarrow> PrinterDescriptionSection \<Rightarrow> DevMode \<Rightarrow> DevMode" where
  "resolveCopies ticket desc devMode =
    (case t_Copies ticket of
       None \<Rightarrow> devMode
     | Some copies \<Rightarrow>
        (if Copies desc = None then devMode
         else if 0 < sint copies then SetCopies (ucast copies) devMode
         else devMode))"

definition resolveFitToPage :: "JobTicket \<Rightarrow> PrinterDescriptionSection \<Rightarrow> bool" where
  "resolveFitToPage ticket desc =
    (case t_FitToPage ticket of
       None \<Rightarrow> False
     | Some ty \<Rightarrow> FitToPage desc \<noteq> None \<and> ty = FitToPageFitToPage)"

text \<open>
  \<open>int16(ticket.MediaSize.HeightMicrons / 10)\<close>: the division of two \<open>int32\<close> rounds
  towards zero, and the conversion keeps the low 16 bits.
\<close>

definition tenthOf :: "int32 \<Rightarrow> int16" where
  "tenthOf microns = ucast (word_of_int (sint microns sdiv 10) :: int32)"

definition resolveMediaSize ::
  "JobTicket \<Rightarrow> PrinterDescriptionSection \<Rightarrow> DevMode \<Rightarrow> error + DevMode" where
  "resolveMediaSize ticket desc devMode =
    (case t_MediaSize ticket of
       None \<Rightarrow> Inr devMode
     | Some item \<Rightarrow>
        (if MediaSize desc = None then Inr devMode
         else if msti_VendorID item \<noteq> []
         then (case ParseInt16 (msti_VendorID item) of
                 Inl err \<Rightarrow> Inl err
               | Inr v \<Rightarrow>
                  Inr (ClearPaperWidth (ClearPaperLength (SetPaperSize (word_of_int v) devMode))))
         else Inr (SetPaperWidth (tenthOf (msti_WidthMicrons item))
                    (SetPaperLength (tenthOf (msti_HeightMicrons item))
                      (ClearPaperSize devMode)))))"

definition resolveCollate ::
  "(dm_const \<Rightarrow> int16) \<Rightarrow> JobTicket \<Rightarrow> PrinterDescriptionSection \<Rightarrow> DevMode \<Rightarrow> DevMode" where
  "resolveCollate d ticket desc devMode =
    (case t_Collate ticket of
       None \<Rightarrow> devMode
     | Some collate \<Rightarrow>
        (if Collate desc = None then devMode
         else if collate then SetCollate (d DMCOLLATE_TRUE) devMode
         else SetCollate (d DMCOLLATE_FALSE) devMode))"

text \<open>The blocks in the order of \<open>Print\<close>; an error of a block is the return of \<open>Print\<close>.\<close>

definition resolveTicket ::
  "(dm_const \<Rightarrow> int16) \<Rightarrow> JobTicket \<Rightarrow> PrinterDescriptionSection \<Rightarrow> DevMode \<Rightarrow>
   error + DevMode" where
  "resolveTicket d ticket desc devMode =
    (case resolveColor d ticket desc devMode of
       Inl err \<Rightarrow> Inl err
     | Inr dm1 \<Rightarrow>
        (case resolveMediaSize ticket desc
                (resolveCopies ticket desc
                  (resolveOrientation d ticket desc
                    (resolveDuplex d ticket desc dm1))) of
           Inl err \<Rightarrow> Inl err
         | Inr dm5 \<Rightarrow> Inr (resolveCollate d ticket desc dm5)))"

subsection \<open>Native calls and their trace\<close>

datatype job_command = JOB_CONTROL_RETAIN | JOB_CONTROL_RELEASE

text \<open>
  The outcome of every native call of one submission. A call that returns only an error
  is an \<open>error option\<close> (\<open>None\<close> is \<open>nil\<close>). The document, the device context, the
  surface and the rendering context are one each per submission, so their handles are
  left out; the printer handle is the number \<open>OpenPrinter\<close> returns.
  \<open>hPrinter.SetJobUserName\<close>, whose result the source does not read, is left out too.
  \<open>printPage\<close> of the
  source is a sequence of native calls on these handles that releases what it opens
  itself; it is taken as the outcome of the whole call for a page index, the device
  settings and the fit-to-page flag.
\<close>

record native = spooler +
  PopplerDocumentNewFromFile :: "string \<Rightarrow> error option"
  DocumentPropertiesGet :: "nat \<Rightarrow> string \<Rightarrow> error + DevMode"
  DocumentPropertiesSet :: "nat \<Rightarrow> string \<Rightarrow> DevMode \<Rightarrow> error option"
  CreateDC :: "string \<Rightarrow> DevMode \<Rightarrow> error option"
  StartDoc :: "string \<Rightarrow> error + int32"
  CairoWin32PrintingSurfaceCreate :: "error option"
  CairoCreateContext :: "error option"
  cContext_Destroy :: "error option"
  cSurface_Destroy :: "error option"
  EndDoc :: "error option"
  DeleteDC :: "error option"
  ClosePrinter :: "nat \<Rightarrow> error option"
  GetNPages :: int
  printPage :: "string \<Rightarrow> nat \<Rightarrow> DevMode \<Rightarrow> bool \<Rightarrow> error option"
  SetJobCommand :: "nat \<Rightarrow> int32 \<Rightarrow> job_command \<Rightarrow> error option"

text \<open>
  What a submission does to the resources, in order: an acquisition is recorded when the
  call succeeded, a release when the call was made.
\<close>

datatype event =
    SemaphoreAcquire | SemaphoreRelease
  | DocumentOpened | DocumentUnref
  | PrinterOpened | PrinterClosed
  | DCCreated | DCDeleted
  | DocStarted | DocEnded
  | SurfaceCreated | SurfaceDestroyed
  | ContextCreated | ContextDestroyed
  | PagePrinted nat
  | JobRetained

record jobContext =
  jc_jobID :: int32
  jc_hPrinter :: nat
  jc_devMode :: DevMode

definition newJobContext ::
  "native \<Rightarrow> string \<Rightarrow> string \<Rightarrow> string \<Rightarrow> event list \<times> (error + jobContext)" where
  "newJobContext ws printerName fileName title =
    (case PopplerDocumentNewFromFile ws fileName of
       Some err \<Rightarrow> ([], Inl err)
     | None \<Rightarrow>
    (case OpenPrinter ws printerName of
       Inl err \<Rightarrow> ([DocumentOpened, DocumentUnref], Inl err)
     | Inr hPrinter \<Rightarrow>
    (case DocumentPropertiesGet ws hPrinter printerName of
       Inl err \<Rightarrow> ([DocumentOpened, PrinterOpened, PrinterClosed, DocumentUnref], Inl err)
     | Inr devMode \<Rightarrow>
    (case DocumentPropertiesSet ws hPrinter printerName devMode of
       Some err \<Rightarrow> ([DocumentOpened, PrinterOpened, PrinterClosed, DocumentUnref], Inl err)
     | None \<Rightarrow>
    (case CreateDC ws printerName devMode of
       Some err \<Rightarrow> ([DocumentOpened, PrinterOpened, PrinterClosed, DocumentUnref], Inl err)
     | None \<Rightarrow>
    (case StartDoc ws title of
       Inl err \<Rightarrow>
         ([DocumentOpened, PrinterOpened, DCCreated,
           DCDeleted, PrinterClosed, DocumentUnref], Inl err)
     | Inr jobID \<Rightarrow>
    (case CairoWin32PrintingSurfaceCreate ws of
       Some err \<Rightarrow>
         ([DocumentOpened, PrinterOpened, DCCreated, DocStarted,
           DocEnded, DCDeleted, PrinterClosed, DocumentUnref], Inl err)
     | None \<Rightarrow>
    (case CairoCreateContext ws of
       Some err \<Rightarrow>
         ([DocumentOpened, PrinterOpened, DCCreated, DocStarted, SurfaceCreated,
           SurfaceDestroyed, DocEnded, DCDeleted, PrinterClosed, DocumentUnref], Inl err)
     | None \<Rightarrow>
         ([DocumentOpened, PrinterOpened, DCCreated, DocStarted, SurfaceCreated,
           ContextCreated],
          Inr \<lparr>jc_jobID = jobID, jc_hPrinter = hPrinter, jc_devMode = devMode\<rparr>)))))))))"

definition free :: "native \<Rightarrow> jobContext \<Rightarrow> event list \<times> error option" where
  "free ws c =
    (case cContext_Destroy ws of
       Some err \<Rightarrow> ([ContextDestroyed], Some err)
     | None \<Rightarrow>
    (case cSurface_Destroy ws of
       Some err \<Rightarrow> ([ContextDestroyed, SurfaceDestroyed], Some err)
     | None \<Rightarrow>
    (case EndDoc ws of
       Some err \<Rightarrow> ([ContextDestroyed, SurfaceDestroyed, DocEnded], Some err)
     | None \<Rightarrow>
    (case DeleteDC ws of
       Some err \<Rightarrow> ([ContextDestroyed, SurfaceDestroyed, DocEnded, DCDeleted], Some err)
     | None \<Rightarrow>
    (case ClosePrinter ws (jc_hPrinter c) of
       Some err \<Rightarrow>
         ([ContextDestroyed, SurfaceDestroyed, DocEnded, DCDeleted, PrinterClosed], Some err)
     | None \<Rightarrow>
         ([ContextDestroyed, SurfaceDestroyed, DocEnded, DCDeleted, PrinterClosed,
           DocumentUnref], None))))))"

text \<open>The loop \<open>for i := 0; i < jobContext.pDoc.GetNPages(); i++\<close>, on the page indices.\<close>

fun printPages ::
  "native \<Rightarrow> string \<Rightarrow> DevMode \<Rightarrow> bool \<Rightarrow> nat list \<Rightarrow> event list \<times> error option" where
  "printPages ws printerName devMode fitToPage [] = ([], None)"
| "printPages ws printerName devMode fitToPage (i # rest) =
    (case printPage ws printerName i devMode fitToPage of
       Some err \<Rightarrow> ([], Some err)
     | None \<Rightarrow>
        (let r = printPages ws printerName devMode fitToPage rest
         in (PagePrinted i # fst r, snd r)))"

text \<open>
  \<open>Print\<close> from the creation of the job context on (lines 752 to 832): the trace of the
  pages and of the retain command, the returned job id or error, and the device settings
  the pages were printed with when the ticket resolved.
\<close>

definition printJob ::
  "(job_flag \<Rightarrow> uint32) \<Rightarrow> (dm_const \<Rightarrow> int16) \<Rightarrow> native \<Rightarrow> Printer \<Rightarrow> JobTicket \<Rightarrow>
   jobContext \<Rightarrow> event list \<times> (error + uint32) \<times> DevMode option" where
  "printJob c d ws printer ticket jc =
    (case resolveTicket d ticket (Description printer) (jc_devMode jc) of
       Inl err \<Rightarrow> ([], Inl err, None)
     | Inr devMode \<Rightarrow>
        (let fitToPage = resolveFitToPage ticket (Description printer);
             pages = printPages ws (Name printer) devMode fitToPage [0 ..< nat (GetNPages ws)]
         in case snd pages of
              Some err \<Rightarrow> (fst pages, Inl err, Some devMode)
            | None \<Rightarrow>
               (case GetJob ws (jc_hPrinter jc) (jc_jobID jc) of
                  Inl err \<Rightarrow> (fst pages, Inl err, Some devMode)
                | Inr status \<Rightarrow>
                   (if status AND c JOB_STATUS_PAUSED = 0
                    then (case SetJobCommand ws (jc_hPrinter jc) (jc_jobID jc)
                                 JOB_CONTROL_RETAIN of
                            Some err \<Rightarrow> (fst pages, Inl err, Some devMode)
                          | None \<Rightarrow> (fst pages @ [JobRetained], Inr (jc_jobID jc), Some devMode))
                    else (fst pages, Inr (jc_jobID jc), Some devMode)))))"

record PrintRun =
  events :: "event list"
  result :: "error + uint32"
  settings :: "DevMode option"

text \<open>
  \<open>Print\<close>. The first statement reads \<open>printer.NativeJobSemaphore\<close>, so a \<open>nil\<close>
  printer is a run-time panic before anything else happens: the value \<open>None\<close>. The two
  deferred calls run at every return, \<open>jobContext.free()\<close> (when the job context was
  created) before the release of the semaphore; the error of \<open>free\<close> is dropped.
\<close>

definition Print ::
  "(job_flag \<Rightarrow> uint32) \<Rightarrow> (dm_const \<Rightarrow> int16) \<Rightarrow> native \<Rightarrow> Printer option \<Rightarrow>
   string \<Rightarrow> string \<Rightarrow> JobTicket option \<Rightarrow> PrintRun option" where
  "Print c d ws printer fileName title ticket =
    (case printer of
       None \<Rightarrow> None
     | Some p \<Rightarrow>
        (case ticket of
           None \<Rightarrow>
             Some \<lparr>events = [SemaphoreAcquire, SemaphoreRelease],
                   result = Inl NilTicket, settings = None\<rparr>
         | Some t \<Rightarrow>
            (case newJobContext ws (Name p) fileName title of
               (opened, Inl err) \<Rightarrow>
                 Some \<lparr>events = SemaphoreAcquire # opened @ [SemaphoreRelease],
                       result = Inl err, settings = None\<rparr>
             | (opened, Inr jc) \<Rightarrow>
                (let job = printJob c d ws p t jc
                 in Some \<lparr>events = SemaphoreAcquire # opened @ fst job @ fst (free ws jc)
                                      @ [SemaphoreRelease],
                           result = fst (snd job), settings = snd (snd job)\<rparr>))))"

section \<open>Page scaling: \<open>getScaleAndOffset\<close>\<close>

text \<open>
  The \<open>float64\<close> values of the source are real numbers here: the function is read as
  exact arithmetic, without the rounding of the machine operations. The products
  \<open>wPaperPixels*72\<close> are computed in \<open>int32\<close> before the conversion and wrap around as
  in the source.
\<close>

definition getScaleAndOffset ::
  "real \<Rightarrow> real \<Rightarrow> int32 \<Rightarrow> int32 \<Rightarrow> int32 \<Rightarrow> int32 \<Rightarrow> int32 \<Rightarrow> int32 \<Rightarrow> int32 \<Rightarrow> int32 \<Rightarrow>
   bool \<Rightarrow> real \<times> real \<times> real" where
  "getScaleAndOffset wDocPoints hDocPoints wPaperPixels hPaperPixels xMarginPixels yMarginPixels
     wPrintablePixels hPrintablePixels xDPI yDPI fitToPage =
    (let wPaperPoints = real_of_int (sint (wPaperPixels * 72)) / real_of_int (sint xDPI);
         hPaperPoints = real_of_int (sint (hPaperPixels * 72)) / real_of_int (sint yDPI);
         wPrintablePoints =
           (if fitToPage
            then real_of_int (sint (wPrintablePixels * 72)) / real_of_int (sint xDPI)
            else wPaperPoints);
         hPrintablePoints =
           (if fitToPage
            then real_of_int (sint (hPrintablePixels * 72)) / real_of_int (sint yDPI)
            else hPaperPoints);
         xScale = wPrintablePoints / wDocPoints;
         yScale = hPrintablePoints / hDocPoints;
         scale = (if xScale < yScale then xScale else yScale);
         xOffsetPoints = (wPaperPoints - wDocPoints * scale) / 2;
         yOffsetPoints = (hPaperPoints - hDocPoints * scale) / 2
     in (scale, xOffsetPoints, yOffsetPoints))"

section \<open>Definitions used by the statements and the proofs\<close>

definition itemOf :: "statusCheck \<Rightarrow> VendorStateItem" where
  "itemOf chk = \<lparr>vsi_State = fst (snd (snd chk)), vsi_DescriptionLocalized = snd (snd (snd chk))\<rparr>"

text \<open>
  The invariant of the loop of \<open>convertMediaSize\<close> on the options so far and
  \<open>foundDef\<close>: with \<open>foundDef\<close> exactly one option is marked as the default, without
  it none is.
\<close>

definition oneDefaultInv :: "MediaSizeOption list \<times> bool \<Rightarrow> bool" where
  "oneDefaultInv acc =
    (if snd acc
     then length (filter mso_IsDefault (fst acc)) = 1
     else filter mso_IsDefault (fst acc) = [])"

text \<open>Concrete inputs for the examples.\<close>

definition noDevMode :: DevMode where
  "noDevMode = \<lparr>dmOrientation = None, dmPaperSize = None, dmPaperLength = None,
     dmPaperWidth = None, dmCopies = None, dmColor = None, dmDuplex = None,
     dmCollate = None\<rparr>"

definition labelCapabilities :: capabilities where
  "labelCapabilities =
    \<lparr>DeviceCapabilitiesInt32 = (\<lambda>printerName portName cap. Inr 0),
     DeviceCapabilitiesStrings = (\<lambda>printerName portName cap n. Inr [''Letter'', ''Label'']),
     DeviceCapabilitiesUint16Array = (\<lambda>printerName portName cap. Inr [1, 257]),
     DeviceCapabilitiesInt32Pairs = (\<lambda>printerName portName cap. Inr [2159, 2794, 300, 200])\<rparr>"

text \<open>
  A native side on which every call succeeds: the printer opens with handle 1 and the
  given device settings, the document has one page and becomes job 7, whose status is 0.
\<close>

definition okNative :: "DevMode \<Rightarrow> native" where
  "okNative devMode =
    \<lparr>OpenPrinter = (\<lambda>printerName. Inr 1),
     GetJob = (\<lambda>hPrinter jobID. Inr 0),
     PopplerDocumentNewFromFile = (\<lambda>fileName. None),
     DocumentPropertiesGet = (\<lambda>hPrinter printerName. Inr devMode),
     DocumentPropertiesSet = (\<lambda>hPrinter printerName dm. None),
     CreateDC = (\<lambda>printerName dm. None),
     StartDoc = (\<lambda>title. Inr 7),
     CairoWin32PrintingSurfaceCreate = None,
     CairoCreateContext = None,
     cContext_Destroy = None,
     cSurface_Destroy = None,
     EndDoc = None,
     DeleteDC = None,
     ClosePrinter = (\<lambda>hPrinter. None),
     GetNPages = 1,
     printPage = (\<lambda>printerName i dm fitToPage. None),
     SetJobCommand = (\<lambda>hPrinter jobID cmd. None)\<rparr>"

text \<open>A printer that advertises color and one media size (A4), and nothing else.\<close>

definition officePrinter :: Printer where
  "officePrinter =
    \<lparr>Name = ''Office'',
     DefaultDisplayName = ''Office'',
     Manufacturer = ''Google'',
     Model = ''Cloud Printer'',
     State = \<lparr>pss_State = CloudDeviceStateIdle, pss_VendorState = None\<rparr>,
     Description =
       \<lparr>Color = Some
          [\<lparr>co_VendorID = ''2'', co_Type = ColorTypeStandardColor, co_IsDefault = True,
            co_CustomDisplayNameLocalized = ''Color''\<rparr>,
           \<lparr>co_VendorID = ''1'', co_Type = ColorTypeStandardMonochrome, co_IsDefault = False,
            co_CustomDisplayNameLocalized = ''Monochrome''\<rparr>],
        Duplex = None,
        PageOrientation = None,
        Copies = None,
        FitToPage = None,
        MediaSize = Some
          [\<lparr>mso_Name = MediaSizeCustom, mso_WidthMicrons = 210000,
            mso_HeightMicrons = 297000, mso_IsDefault = True, mso_VendorID = ''9'',
            mso_CustomDisplayNameLocalized = ''A4''\<rparr>],
        Collate = None\<rparr>,
     Tags = [(''printer-location'', ''Floor 2'')]\<rparr>"

definition noTicket :: JobTicket where
  "noTicket = \<lparr>t_Color = None, t_Duplex = None, t_PageOrientation = None, t_Copies = None,
     t_FitToPage = None, t_MediaSize = None, t_Collate = None\<rparr>"

text \<open>
  The release that belongs to an acquisition, and the check that a trace releases what
  it acquired in strict reverse order and leaves nothing acquired: \<open>unwound pending es\<close>
  runs through the trace \<open>es\<close> with the releases that are due, latest acquisition first.
\<close>

fun releaseOf :: "event \<Rightarrow> event option" where
  "releaseOf SemaphoreAcquire = Some SemaphoreRelease"
| "releaseOf DocumentOpened = Some DocumentUnref"
| "releaseOf PrinterOpened = Some PrinterClosed"
| "releaseOf DCCreated = Some DCDeleted"
| "releaseOf DocStarted = Some DocEnded"
| "releaseOf SurfaceCreated = Some SurfaceDestroyed"
| "releaseOf ContextCreated = Some ContextDestroyed"
| "releaseOf e = None"

fun isRelease :: "event \<Rightarrow> bool" where
  "isRelease SemaphoreRelease = True"
| "isRelease DocumentUnref = True"
| "isRelease PrinterClosed = True"
| "isRelease DCDeleted = True"
| "isRelease DocEnded = True"
| "isRelease SurfaceDestroyed = True"
| "isRelease ContextDestroyed = True"
| "isRelease e = False"

fun unwound :: "event list \<Rightarrow> event list \<Rightarrow> bool" where
  "unwound pending [] = (pending = [])"
| "unwound pending (e # es) =
    (case releaseOf e of
       Some r \<Rightarrow> unwound (r # pending) es
     | None \<Rightarrow>
        (if isRelease e
         then (case pending of [] \<Rightarrow> False | r # rest \<Rightarrow> r = e \<and> unwound rest es)
         else unwound pending es))"

section \<open>Properties of the state translation\<close>

lemma hasBit_OR: "hasBit w (a OR b) \<longleftrightarrow> hasBit w a \<or> hasBit w b"
  by (simp add: hasBit_def bit.conj_disj_distrib or_eq_0_iff)

lemma and_or_nonzero:
  fixes w :: uint32
  shows "w AND (a OR b) \<noteq> 0 \<longleftrightarrow> hasBit w a \<or> hasBit w b"
  using hasBit_OR [of w a b] by (simp add: hasBit_def)

text \<open>
  Claim C5. For every job status bitfield, whatever the values of the status constants,
  \<open>convertJobState\<close> follows the fixed precedence: a spooling or printing bit gives
  in-progress; else a printed or complete bit gives done; else a paused bit or the zero
  bitfield gives done; else an error bit gives aborted with the print-failure cause; else
  a deleting or deleted bit gives aborted with the user-canceled cause; else an offline,
  paper-out, blocked-in-queue or user-intervention bit gives stopped with the
  device-state-other cause; and every other bitfield gives aborted with the
  device-action-other cause.
\<close>

theorem convertJobState_precedence:
  "convertJobState c wsStatus = jobStatePrecedence c wsStatus"
  unfolding convertJobState_def jobStatePrecedence_def and_or_nonzero
  by (simp add: zeroJobState_def hasBit_def and_or_nonzero)

theorem convertJobState_precedence_witness:
  "convertJobState winspool_job_flags 0x8 =
     \<lparr>js_Type = JobStateInProgress, js_UserActionCause = None,
      js_DeviceStateCause = None, js_DeviceActionCause = None\<rparr>
   \<and> convertJobState winspool_job_flags 0x1100 =
     \<lparr>js_Type = JobStateDone, js_UserActionCause = None,
      js_DeviceStateCause = None, js_DeviceActionCause = None\<rparr>
   \<and> convertJobState winspool_job_flags 0 =
     \<lparr>js_Type = JobStateDone, js_UserActionCause = None,
      js_DeviceStateCause = None, js_DeviceActionCause = None\<rparr>
   \<and> convertJobState winspool_job_flags 0x102 =
     \<lparr>js_Type = JobStateAborted, js_UserActionCause = None,
      js_DeviceStateCause = None, js_DeviceActionCause = Some DeviceActionCausePrintFailure\<rparr>
   \<and> convertJobState winspool_job_flags 0x100 =
     \<lparr>js_Type = JobStateAborted, js_UserActionCause = Some UserActionCauseCanceled,
      js_DeviceStateCause = None, js_DeviceActionCause = None\<rparr>
   \<and> convertJobState winspool_job_flags 0x40 =
     \<lparr>js_Type = JobStateStopped, js_UserActionCause = None,
      js_DeviceStateCause = Some DeviceStateCauseOther, js_DeviceActionCause = None\<rparr>
   \<and> convertJobState winspool_job_flags 0x800 =
     \<lparr>js_Type = JobStateAborted, js_UserActionCause = None,
      js_DeviceStateCause = None, js_DeviceActionCause = Some DeviceActionCauseOther\<rparr>"
  unfolding convertJobState_precedence
  by (simp add: jobStatePrecedence_def hasBit_def)

text \<open>
  Claim C7. When the printer opens and the job lookup fails with the invalid-parameter
  error (the job no longer exists), \<open>GetJobState\<close> returns a normal result whose job
  state is aborted with the device-action-other cause; any other error of the lookup is
  returned as the error of \<open>GetJobState\<close>.
\<close>

theorem GetJobState_lookup_failure:
  "OpenPrinter ws printerName = Inr hPrinter \<Longrightarrow>
   (GetJob ws hPrinter jobID = Inl ERROR_INVALID_PARAMETER \<longrightarrow>
      GetJobState c ws printerName jobID =
        Inr \<lparr>pjsd_State = Some \<lparr>js_Type = JobStateAborted, js_UserActionCause = None,
               js_DeviceStateCause = None,
               js_DeviceActionCause = Some DeviceActionCauseOther\<rparr>\<rparr>)
   \<and> (\<forall>err. GetJob ws hPrinter jobID = Inl err \<and> err \<noteq> ERROR_INVALID_PARAMETER \<longrightarrow>
      GetJobState c ws printerName jobID = Inl err)"
  by (simp add: GetJobState_def zeroJobState_def)

theorem GetJobState_lookup_failure_witness:
  "GetJobState winspool_job_flags
     \<lparr>OpenPrinter = (\<lambda>name. Inr 1), GetJob = (\<lambda>h j. Inl ERROR_INVALID_PARAMETER)\<rparr>
     ''Office'' 7 =
     Inr \<lparr>pjsd_State = Some \<lparr>js_Type = JobStateAborted, js_UserActionCause = None,
            js_DeviceStateCause = None,
            js_DeviceActionCause = Some DeviceActionCauseOther\<rparr>\<rparr>
   \<and> GetJobState winspool_job_flags
     \<lparr>OpenPrinter = (\<lambda>name. Inr 1), GetJob = (\<lambda>h j. Inl (NativeError 5))\<rparr>
     ''Office'' 7 = Inl (NativeError 5)"
  using
    GetJobState_lookup_failure [of
      "\<lparr>OpenPrinter = (\<lambda>name. Inr 1), GetJob = (\<lambda>h j. Inl ERROR_INVALID_PARAMETER)\<rparr>"
      "''Office''" 1 7 winspool_job_flags]
    GetJobState_lookup_failure [of
      "\<lparr>OpenPrinter = (\<lambda>name. Inr 1), GetJob = (\<lambda>h j. Inl (NativeError 5))\<rparr>"
      "''Office''" 1 7 winspool_job_flags]
  by simp

subsection \<open>The stopped state always comes with a vendor-state item\<close>

lemma snd_applyCheck:
  "snd (applyCheck s chk) = (if fst chk then snd s @ [itemOf chk] else snd s)"
  by (cases s; cases chk) (simp add: itemOf_def)

lemma fst_applyCheck:
  "fst (applyCheck s chk) =
     (if fst chk \<and> fst (snd chk) then CloudDeviceStateStopped else fst s)"
  by (cases s; cases chk) simp

lemma foldl_applyCheck_items:
  "snd (foldl applyCheck s cs) = snd s @ map itemOf (filter fst cs)"
  by (induction cs arbitrary: s) (simp_all add: snd_applyCheck)

lemma foldl_applyCheck_state:
  "fst (foldl applyCheck s cs) = CloudDeviceStateStopped \<Longrightarrow>
   fst s = CloudDeviceStateStopped \<or> filter fst cs \<noteq> []"
proof (induction cs arbitrary: s)
  case Nil
  then show ?case by simp
next
  case (Cons chk cs)
  from Cons.IH [of "applyCheck s chk"] Cons.prems
  have "fst (applyCheck s chk) = CloudDeviceStateStopped \<or> filter fst cs \<noteq> []"
    by simp
  then show ?case
    by (cases "fst chk") (simp_all add: fst_applyCheck)
qed

text \<open>
  Claim C10. For every status and attribute bitfield, whatever the values of the status
  constants: when \<open>convertPrinterState\<close> returns the stopped state, the vendor-state
  list is present and holds at least one item; and the list is omitted exactly when no
  block of the function appended an item.
\<close>

theorem convertPrinterState_stopped_has_item:
  "(pss_State (convertPrinterState c wsStatus wsAttributes) = CloudDeviceStateStopped \<longrightarrow>
      (\<exists>items. pss_VendorState (convertPrinterState c wsStatus wsAttributes)
                  = Some \<lparr>Item = items\<rparr> \<and> items \<noteq> []))
   \<and> (pss_VendorState (convertPrinterState c wsStatus wsAttributes) = None \<longleftrightarrow>
        filter fst (printerStatusChecks c wsStatus wsAttributes) = [])"
proof -
  define cs where "cs = printerStatusChecks c wsStatus wsAttributes"
  define st0 where
    "st0 = (if wsStatus AND (c PRINTER_STATUS_PRINTING OR c PRINTER_STATUS_PROCESSING) \<noteq> 0
            then CloudDeviceStateProcessing else CloudDeviceStateIdle)"
  define fin where "fin = foldl applyCheck (st0, []) cs"
  have res: "convertPrinterState c wsStatus wsAttributes =
      \<lparr>pss_State = fst fin,
       pss_VendorState = (if snd fin = [] then None else Some \<lparr>Item = snd fin\<rparr>)\<rparr>"
    by (simp add: convertPrinterState_def Let_def cs_def st0_def fin_def)
  have items: "snd fin = map itemOf (filter fst cs)"
    unfolding fin_def using foldl_applyCheck_items [of "(st0, [])" cs] by simp
  have st0: "st0 \<noteq> CloudDeviceStateStopped"
    by (simp add: st0_def)
  have stopped: "filter fst cs \<noteq> []" if "fst fin = CloudDeviceStateStopped"
    using foldl_applyCheck_state [of "(st0, [])" cs] that st0 by (simp add: fin_def)
  have a: "pss_State (convertPrinterState c wsStatus wsAttributes) = CloudDeviceStateStopped \<longrightarrow>
      (\<exists>items. pss_VendorState (convertPrinterState c wsStatus wsAttributes)
                  = Some \<lparr>Item = items\<rparr> \<and> items \<noteq> [])"
    using stopped by (simp add: res items)
  have b: "pss_VendorState (convertPrinterState c wsStatus wsAttributes) = None \<longleftrightarrow>
        filter fst cs = []"
    by (simp add: res items)
  from a b show ?thesis
    unfolding cs_def by (rule conjI)
qed

theorem convertPrinterState_stopped_has_item_witness:
  "pss_State (convertPrinterState winspool_printer_flags 0x11 0) = CloudDeviceStateStopped
   \<and> (\<exists>items. pss_VendorState (convertPrinterState winspool_printer_flags 0x11 0)
                 = Some \<lparr>Item = items\<rparr> \<and> items \<noteq> [])"
proof -
  have s: "pss_State (convertPrinterState winspool_printer_flags 0x11 0) = CloudDeviceStateStopped"
    by (simp add: convertPrinterState_def printerStatusChecks_def)
  with convertPrinterState_stopped_has_item [of winspool_printer_flags "0x11" 0]
  show ?thesis by blast
qed

section \<open>Properties of the printer description\<close>

lemma digitChar_simps:
  "digitChar 0 = CHR ''0''" "digitChar 1 = CHR ''1''" "digitChar (Suc 0) = CHR ''1''"
  "digitChar 2 = CHR ''2''"
  "digitChar 3 = CHR ''3''" "digitChar 4 = CHR ''4''" "digitChar 5 = CHR ''5''"
  "digitChar 6 = CHR ''6''" "digitChar 7 = CHR ''7''" "digitChar 8 = CHR ''8''"
  "digitChar 9 = CHR ''9''"
  by (simp_all add: digitChar_def char_of_def bit_0 odd_Suc_div_two)

lemma oneDefaultInv_round:
  "oneDefaultInv acc \<Longrightarrow> oneDefaultInv (mediaSizeRound devMode names papers sizes acc i)"
  by (cases acc) (auto simp: oneDefaultInv_def mediaSizeRound_def Let_def)

lemma oneDefaultInv_foldl:
  "oneDefaultInv acc \<Longrightarrow>
   oneDefaultInv (foldl (mediaSizeRound devMode names papers sizes) acc idx)"
  by (induction idx arbitrary: acc) (simp_all add: oneDefaultInv_round)

lemma defaultToFirst_one:
  assumes "oneDefaultInv fin" "defaultToFirst fin \<noteq> []"
  shows "length (filter mso_IsDefault (defaultToFirst fin)) = 1"
proof (cases "snd fin")
  case True
  with assms(1) show ?thesis
    by (simp add: oneDefaultInv_def defaultToFirst_def)
next
  case False
  with assms obtain opt rest where f: "fst fin = opt # rest"
    by (cases "fst fin") (auto simp: defaultToFirst_def)
  from False assms(1) have "filter mso_IsDefault (opt # rest) = []"
    by (simp add: oneDefaultInv_def f)
  then have "filter mso_IsDefault rest = []"
    by (simp split: if_splits)
  with False f show ?thesis
    by (simp add: defaultToFirst_def)
qed

text \<open>
  The first half of claim C8 holds on the code: whenever \<open>convertMediaSize\<close> produces a
  non-empty option list, exactly one option has \<open>isDefault = true\<close>.
\<close>

lemma convertMediaSize_exactly_one_default:
  assumes "convertMediaSize caps printerName portName devMode = Inr (Some opts)"
    and "opts \<noteq> []"
  shows "length (filter mso_IsDefault opts) = 1"
proof -
  from assms(1) obtain names papers sizes idx where
    o: "opts = defaultToFirst
          (foldl (mediaSizeRound devMode names papers sizes) ([], False) idx)"
    unfolding convertMediaSize_def
    by (auto split: sum.splits if_splits)
  have "oneDefaultInv (foldl (mediaSizeRound devMode names papers sizes) ([], False) idx)"
    by (rule oneDefaultInv_foldl) (simp add: oneDefaultInv_def)
  from defaultToFirst_one [OF this] assms(2) show ?thesis
    unfolding o by simp
qed

text \<open>
  Claim C8 against the code. The device settings carry no paper code and the length 200
  and width 300, in tenths of a millimeter: exactly the second paper of the printer
  (\<open>DC_PAPERSIZE\<close> gives 300 by 200 for it, in the same unit). The loop converts the
  sizes of the papers to micrometers before it compares them with the length and width
  of the settings, which it leaves in tenths of a millimeter: 200 is compared with 20000
  and 300 with 30000. So the exact length and width match is not found, and the first
  option, Letter, is marked as the default instead of the paper the device is set to.
\<close>

theorem convertMediaSize_length_width_units:
  "convertMediaSize labelCapabilities ''Label printer'' ''USB001''
     (noDevMode\<lparr>dmPaperLength := Some 200, dmPaperWidth := Some 300\<rparr>)
   = Inr (Some
      [\<lparr>mso_Name = MediaSizeCustom, mso_WidthMicrons = 215900, mso_HeightMicrons = 279400,
        mso_IsDefault = True, mso_VendorID = ''1'',
        mso_CustomDisplayNameLocalized = ''Letter''\<rparr>,
       \<lparr>mso_Name = MediaSizeCustom, mso_WidthMicrons = 30000, mso_HeightMicrons = 20000,
        mso_IsDefault = False, mso_VendorID = ''257'',
        mso_CustomDisplayNameLocalized = ''Label''\<rparr>])"
  by (simp add: convertMediaSize_def labelCapabilities_def noDevMode_def defaultToFirst_def
      mediaSizeRound_def isDeviceDefault_def FormatUint.simps digitChar_simps
      upt_conv_Cons Let_def)

text \<open>
  The same run, read against the claim: the result is not the list in which the paper
  of the device, Label, is the default.
\<close>

theorem convertMediaSize_length_width_units_witness:
  "convertMediaSize labelCapabilities ''Label printer'' ''USB001''
     (noDevMode\<lparr>dmPaperLength := Some 200, dmPaperWidth := Some 300\<rparr>)
   \<noteq> Inr (Some
      [\<lparr>mso_Name = MediaSizeCustom, mso_WidthMicrons = 215900, mso_HeightMicrons = 279400,
        mso_IsDefault = False, mso_VendorID = ''1'',
        mso_CustomDisplayNameLocalized = ''Letter''\<rparr>,
       \<lparr>mso_Name = MediaSizeCustom, mso_WidthMicrons = 30000, mso_HeightMicrons = 20000,
        mso_IsDefault = True, mso_VendorID = ''257'',
        mso_CustomDisplayNameLocalized = ''Label''\<rparr>])"
  unfolding convertMediaSize_length_width_units by simp

text \<open>The match by paper code does find the paper of the device.\<close>

lemma convertMediaSize_by_paper_code:
  "convertMediaSize labelCapabilities ''Label printer'' ''USB001''
     (noDevMode\<lparr>dmPaperSize := Some 257\<rparr>)
   = Inr (Some
      [\<lparr>mso_Name = MediaSizeCustom, mso_WidthMicrons = 215900, mso_HeightMicrons = 279400,
        mso_IsDefault = False, mso_VendorID = ''1'',
        mso_CustomDisplayNameLocalized = ''Letter''\<rparr>,
       \<lparr>mso_Name = MediaSizeCustom, mso_WidthMicrons = 30000, mso_HeightMicrons = 20000,
        mso_IsDefault = True, mso_VendorID = ''257'',
        mso_CustomDisplayNameLocalized = ''Label''\<rparr>])"
  by (simp add: convertMediaSize_def labelCapabilities_def noDevMode_def defaultToFirst_def
      mediaSizeRound_def isDeviceDefault_def FormatUint.simps digitChar_simps
      upt_conv_Cons Let_def)

section \<open>Properties of the print submission\<close>

lemmas dm_setters = SetColor_def SetDuplex_def SetOrientation_def SetCopies_def SetCollate_def
  SetPaperSize_def SetPaperLength_def SetPaperWidth_def ClearPaperSize_def
  ClearPaperLength_def ClearPaperWidth_def

lemma resolveColor_frame:
  "resolveColor d t desc dm = Inr dm' \<Longrightarrow>
   dmDuplex dm' = dmDuplex dm \<and> dmOrientation dm' = dmOrientation dm
   \<and> dmCopies dm' = dmCopies dm \<and> dmPaperSize dm' = dmPaperSize dm
   \<and> dmPaperLength dm' = dmPaperLength dm \<and> dmPaperWidth dm' = dmPaperWidth dm
   \<and> dmCollate dm' = dmCollate dm"
  by (auto simp: resolveColor_def dm_setters split: option.splits if_splits sum.splits)

lemma resolveColor_skip:
  "t_Color t = None \<or> Color desc = None \<Longrightarrow> resolveColor d t desc dm = Inr dm"
  by (auto simp: resolveColor_def split: option.splits)

lemma resolveDuplex_frame:
  "dmColor (resolveDuplex d t desc dm) = dmColor dm"
  "dmOrientation (resolveDuplex d t desc dm) = dmOrientation dm"
  "dmCopies (resolveDuplex d t desc dm) = dmCopies dm"
  "dmPaperSize (resolveDuplex d t desc dm) = dmPaperSize dm"
  "dmPaperLength (resolveDuplex d t desc dm) = dmPaperLength dm"
  "dmPaperWidth (resolveDuplex d t desc dm) = dmPaperWidth dm"
  "dmCollate (resolveDuplex d t desc dm) = dmCollate dm"
  by (simp_all add: resolveDuplex_def dm_setters split: option.splits)

lemma resolveDuplex_skip:
  "t_Duplex t = None \<or> Duplex desc = None \<Longrightarrow> resolveDuplex d t desc dm = dm"
  by (auto simp: resolveDuplex_def split: option.splits)

lemma resolveOrientation_frame:
  "dmColor (resolveOrientation d t desc dm) = dmColor dm"
  "dmDuplex (resolveOrientation d t desc dm) = dmDuplex dm"
  "dmCopies (resolveOrientation d t desc dm) = dmCopies dm"
  "dmPaperSize (resolveOrientation d t desc dm) = dmPaperSize dm"
  "dmPaperLength (resolveOrientation d t desc dm) = dmPaperLength dm"
  "dmPaperWidth (resolveOrientation d t desc dm) = dmPaperWidth dm"
  "dmCollate (resolveOrientation d t desc dm) = dmCollate dm"
  by (simp_all add: resolveOrientation_def dm_setters split: option.splits)

lemma resolveOrientation_skip:
  "t_PageOrientation t = None \<or> PageOrientation desc = None \<Longrightarrow>
   resolveOrientation d t desc dm = dm"
  by (auto simp: resolveOrientation_def split: option.splits)

lemma resolveCopies_frame:
  "dmColor (resolveCopies t desc dm) = dmColor dm"
  "dmDuplex (resolveCopies t desc dm) = dmDuplex dm"
  "dmOrientation (resolveCopies t desc dm) = dmOrientation dm"
  "dmPaperSize (resolveCopies t desc dm) = dmPaperSize dm"
  "dmPaperLength (resolveCopies t desc dm) = dmPaperLength dm"
  "dmPaperWidth (resolveCopies t desc dm) = dmPaperWidth dm"
  "dmCollate (resolveCopies t desc dm) = dmCollate dm"
  by (simp_all add: resolveCopies_def dm_setters split: option.splits)

lemma resolveCopies_skip:
  "t_Copies t = None \<or> Copies desc = None \<Longrightarrow> resolveCopies t desc dm = dm"
  by (auto simp: resolveCopies_def split: option.splits)

lemma resolveMediaSize_frame:
  "resolveMediaSize t desc dm = Inr dm' \<Longrightarrow>
   dmColor dm' = dmColor dm \<and> dmDuplex dm' = dmDuplex dm
   \<and> dmOrientation dm' = dmOrientation dm \<and> dmCopies dm' = dmCopies dm
   \<and> dmCollate dm' = dmCollate dm"
  by (auto simp: resolveMediaSize_def dm_setters split: option.splits if_splits sum.splits)

lemma resolveMediaSize_skip:
  "t_MediaSize t = None \<or> MediaSize desc = None \<Longrightarrow> resolveMediaSize t desc dm = Inr dm"
  by (auto simp: resolveMediaSize_def split: option.splits)

lemma resolveCollate_frame:
  "dmColor (resolveCollate d t desc dm) = dmColor dm"
  "dmDuplex (resolveCollate d t desc dm) = dmDuplex dm"
  "dmOrientation (resolveCollate d t desc dm) = dmOrientation dm"
  "dmCopies (resolveCollate d t desc dm) = dmCopies dm"
  "dmPaperSize (resolveCollate d t desc dm) = dmPaperSize dm"
  "dmPaperLength (resolveCollate d t desc dm) = dmPaperLength dm"
  "dmPaperWidth (resolveCollate d t desc dm) = dmPaperWidth dm"
  by (simp_all add: resolveCollate_def dm_setters split: option.splits)

lemma resolveCollate_skip:
  "t_Collate t = None \<or> Collate desc = None \<Longrightarrow> resolveCollate d t desc dm = dm"
  by (auto simp: resolveCollate_def split: option.splits)

lemmas resolve_frames = resolveDuplex_frame resolveOrientation_frame resolveCopies_frame
  resolveCollate_frame

lemma resolveTicket_Inr:
  assumes "resolveTicket d t desc dm = Inr dm'"
  obtains dm1 dm5 where "resolveColor d t desc dm = Inr dm1"
    and "resolveMediaSize t desc
           (resolveCopies t desc (resolveOrientation d t desc (resolveDuplex d t desc dm1)))
         = Inr dm5"
    and "dm' = resolveCollate d t desc dm5"
  using assms unfolding resolveTicket_def by (auto split: sum.splits)

text \<open>A block that is skipped leaves its fields as they were.\<close>

lemma resolveTicket_unchanged:
  assumes "resolveTicket d t desc dm = Inr dm'"
  shows "t_Color t = None \<or> Color desc = None \<Longrightarrow> dmColor dm' = dmColor dm"
    and "t_Duplex t = None \<or> Duplex desc = None \<Longrightarrow> dmDuplex dm' = dmDuplex dm"
    and "t_PageOrientation t = None \<or> PageOrientation desc = None \<Longrightarrow>
          dmOrientation dm' = dmOrientation dm"
    and "t_Copies t = None \<or> Copies desc = None \<Longrightarrow> dmCopies dm' = dmCopies dm"
    and "t_MediaSize t = None \<or> MediaSize desc = None \<Longrightarrow>
          dmPaperSize dm' = dmPaperSize dm \<and> dmPaperLength dm' = dmPaperLength dm
          \<and> dmPaperWidth dm' = dmPaperWidth dm"
    and "t_Collate t = None \<or> Collate desc = None \<Longrightarrow> dmCollate dm' = dmCollate dm"
proof -
  from assms obtain dm1 dm5 where
    c: "resolveColor d t desc dm = Inr dm1" and
    m: "resolveMediaSize t desc
           (resolveCopies t desc (resolveOrientation d t desc (resolveDuplex d t desc dm1)))
         = Inr dm5" and
    e: "dm' = resolveCollate d t desc dm5"
    by (rule resolveTicket_Inr)
  note fc = resolveColor_frame [OF c]
  note fm = resolveMediaSize_frame [OF m]
  show "t_Color t = None \<or> Color desc = None \<Longrightarrow> dmColor dm' = dmColor dm"
    using c fm by (simp add: e resolve_frames resolveColor_skip)
  show "t_Duplex t = None \<or> Duplex desc = None \<Longrightarrow> dmDuplex dm' = dmDuplex dm"
    using fc fm by (simp add: e resolve_frames resolveDuplex_skip)
  show "t_PageOrientation t = None \<or> PageOrientation desc = None \<Longrightarrow>
          dmOrientation dm' = dmOrientation dm"
    using fc fm by (simp add: e resolve_frames resolveOrientation_skip)
  show "t_Copies t = None \<or> Copies desc = None \<Longrightarrow> dmCopies dm' = dmCopies dm"
    using fc fm by (simp add: e resolve_frames resolveCopies_skip)
  show "t_MediaSize t = None \<or> MediaSize desc = None \<Longrightarrow>
          dmPaperSize dm' = dmPaperSize dm \<and> dmPaperLength dm' = dmPaperLength dm
          \<and> dmPaperWidth dm' = dmPaperWidth dm"
  proof -
    assume skip: "t_MediaSize t = None \<or> MediaSize desc = None"
    from m resolveMediaSize_skip [OF skip] have "dm5 =
        resolveCopies t desc (resolveOrientation d t desc (resolveDuplex d t desc dm1))"
      by simp
    with fc show ?thesis by (simp add: e resolve_frames)
  qed
  show "t_Collate t = None \<or> Collate desc = None \<Longrightarrow> dmCollate dm' = dmCollate dm"
    using fc fm by (simp add: e resolve_frames resolveCollate_skip)
qed

text \<open>An item of the ticket for a group that is not advertised has no effect at all.\<close>

lemma resolveColor_other_item:
  "resolveColor d (t\<lparr>t_Duplex := a\<rparr>) desc dm = resolveColor d t desc dm"
  "resolveColor d (t\<lparr>t_PageOrientation := b\<rparr>) desc dm = resolveColor d t desc dm"
  "resolveColor d (t\<lparr>t_Copies := e\<rparr>) desc dm = resolveColor d t desc dm"
  "resolveColor d (t\<lparr>t_MediaSize := f\<rparr>) desc dm = resolveColor d t desc dm"
  "resolveColor d (t\<lparr>t_Collate := g\<rparr>) desc dm = resolveColor d t desc dm"
  by (simp_all add: resolveColor_def)

lemma resolveDuplex_other_item:
  "resolveDuplex d (t\<lparr>t_Color := a\<rparr>) desc dm = resolveDuplex d t desc dm"
  "resolveDuplex d (t\<lparr>t_PageOrientation := b\<rparr>) desc dm = resolveDuplex d t desc dm"
  "resolveDuplex d (t\<lparr>t_Copies := e\<rparr>) desc dm = resolveDuplex d t desc dm"
  "resolveDuplex d (t\<lparr>t_MediaSize := f\<rparr>) desc dm = resolveDuplex d t desc dm"
  "resolveDuplex d (t\<lparr>t_Collate := g\<rparr>) desc dm = resolveDuplex d t desc dm"
  by (simp_all add: resolveDuplex_def)

lemma resolveOrientation_other_item:
  "resolveOrientation d (t\<lparr>t_Color := a\<rparr>) desc dm = resolveOrientation d t desc dm"
  "resolveOrientation d (t\<lparr>t_Duplex := b\<rparr>) desc dm = resolveOrientation d t desc dm"
  "resolveOrientation d (t\<lparr>t_Copies := e\<rparr>) desc dm = resolveOrientation d t desc dm"
  "resolveOrientation d (t\<lparr>t_MediaSize := f\<rparr>) desc dm = resolveOrientation d t desc dm"
  "resolveOrientation d (t\<lparr>t_Collate := g\<rparr>) desc dm = resolveOrientation d t desc dm"
  by (simp_all add: resolveOrientation_def)

lemma resolveCopies_other_item:
  "resolveCopies (t\<lparr>t_Color := a\<rparr>) desc dm = resolveCopies t desc dm"
  "resolveCopies (t\<lparr>t_Duplex := b\<rparr>) desc dm = resolveCopies t desc dm"
  "resolveCopies (t\<lparr>t_PageOrientation := e\<rparr>) desc dm = resolveCopies t desc dm"
  "resolveCopies (t\<lparr>t_MediaSize := f\<rparr>) desc dm = resolveCopies t desc dm"
  "resolveCopies (t\<lparr>t_Collate := g\<rparr>) desc dm = resolveCopies t desc dm"
  by (simp_all add: resolveCopies_def)

lemma resolveMediaSize_other_item:
  "resolveMediaSize (t\<lparr>t_Color := a\<rparr>) desc dm = resolveMediaSize t desc dm"
  "resolveMediaSize (t\<lparr>t_Duplex := b\<rparr>) desc dm = resolveMediaSize t desc dm"
  "resolveMediaSize (t\<lparr>t_PageOrientation := e\<rparr>) desc dm = resolveMediaSize t desc dm"
  "resolveMediaSize (t\<lparr>t_Copies := f\<rparr>) desc dm = resolveMediaSize t desc dm"
  "resolveMediaSize (t\<lparr>t_Collate := g\<rparr>) desc dm = resolveMediaSize t desc dm"
  by (simp_all add: resolveMediaSize_def)

lemma resolveCollate_other_item:
  "resolveCollate d (t\<lparr>t_Color := a\<rparr>) desc dm = resolveCollate d t desc dm"
  "resolveCollate d (t\<lparr>t_Duplex := b\<rparr>) desc dm = resolveCollate d t desc dm"
  "resolveCollate d (t\<lparr>t_PageOrientation := e\<rparr>) desc dm = resolveCollate d t desc dm"
  "resolveCollate d (t\<lparr>t_Copies := f\<rparr>) desc dm = resolveCollate d t desc dm"
  "resolveCollate d (t\<lparr>t_MediaSize := g\<rparr>) desc dm = resolveCollate d t desc dm"
  by (simp_all add: resolveCollate_def)

lemmas resolve_other_item = resolveColor_other_item resolveDuplex_other_item
  resolveOrientation_other_item resolveCopies_other_item resolveMediaSize_other_item
  resolveCollate_other_item

lemma resolveTicket_drop:
  "Color desc = None \<Longrightarrow>
     resolveTicket d (t\<lparr>t_Color := None\<rparr>) desc dm = resolveTicket d t desc dm"
  "Duplex desc = None \<Longrightarrow>
     resolveTicket d (t\<lparr>t_Duplex := None\<rparr>) desc dm = resolveTicket d t desc dm"
  "PageOrientation desc = None \<Longrightarrow>
     resolveTicket d (t\<lparr>t_PageOrientation := None\<rparr>) desc dm = resolveTicket d t desc dm"
  "Copies desc = None \<Longrightarrow>
     resolveTicket d (t\<lparr>t_Copies := None\<rparr>) desc dm = resolveTicket d t desc dm"
  "MediaSize desc = None \<Longrightarrow>
     resolveTicket d (t\<lparr>t_MediaSize := None\<rparr>) desc dm = resolveTicket d t desc dm"
  "Collate desc = None \<Longrightarrow>
     resolveTicket d (t\<lparr>t_Collate := None\<rparr>) desc dm = resolveTicket d t desc dm"
  unfolding resolveTicket_def resolve_other_item
  by (simp_all add: resolveColor_skip resolveDuplex_skip resolveOrientation_skip
      resolveCopies_skip resolveMediaSize_skip resolveCollate_skip cong: sum.case_cong)

lemma resolveFitToPage_drop:
  "resolveFitToPage (t\<lparr>t_Color := None\<rparr>) desc = resolveFitToPage t desc"
  "resolveFitToPage (t\<lparr>t_Duplex := None\<rparr>) desc = resolveFitToPage t desc"
  "resolveFitToPage (t\<lparr>t_PageOrientation := None\<rparr>) desc = resolveFitToPage t desc"
  "resolveFitToPage (t\<lparr>t_Copies := None\<rparr>) desc = resolveFitToPage t desc"
  "resolveFitToPage (t\<lparr>t_MediaSize := None\<rparr>) desc = resolveFitToPage t desc"
  "resolveFitToPage (t\<lparr>t_Collate := None\<rparr>) desc = resolveFitToPage t desc"
  by (simp_all add: resolveFitToPage_def)

lemma Print_same_resolution:
  assumes "resolveTicket d t' (Description p) = resolveTicket d t (Description p)"
    and "resolveFitToPage t' (Description p) = resolveFitToPage t (Description p)"
  shows "Print c d ws (Some p) fileName title (Some t')
       = Print c d ws (Some p) fileName title (Some t)"
proof -
  have "printJob c d ws p t' jc = printJob c d ws p t jc" for jc
    unfolding printJob_def assms by (rule refl)
  then show ?thesis by (simp add: Print_def)
qed

lemma Print_settings:
  assumes "Print c d ws (Some p) fileName title (Some t) = Some run"
    and "settings run = Some dm'"
  obtains opened jc where "newJobContext ws (Name p) fileName title = (opened, Inr jc)"
    and "resolveTicket d t (Description p) (jc_devMode jc) = Inr dm'"
proof -
  obtain opened r where n: "newJobContext ws (Name p) fileName title = (opened, r)"
    by (cases "newJobContext ws (Name p) fileName title")
  show thesis
  proof (cases r)
    case (Inl err)
    with assms n show thesis by (auto simp: Print_def)
  next
    case (Inr jc)
    with assms n have "snd (snd (printJob c d ws p t jc)) = Some dm'"
      by (auto simp: Print_def Let_def)
    then have "resolveTicket d t (Description p) (jc_devMode jc) = Inr dm'"
      by (auto simp: printJob_def Let_def split: sum.splits option.splits if_splits)
    with n Inr that show thesis by blast
  qed
qed


lemmas run_defs = Print_def newJobContext_def free_def printJob_def resolveTicket_def
  resolveColor_def resolveDuplex_def resolveOrientation_def resolveCopies_def
  resolveFitToPage_def resolveMediaSize_def resolveCollate_def colorValueByType_def
  duplexValueByType_def pageOrientationByType_def dm_setters okNative_def officePrinter_def
  noTicket_def noDevMode_def upt_conv_Cons Let_def

text \<open>
  Claim C6. For each of the attributes color, duplex, orientation, copies, media size and
  collate: when the description of the printer does not advertise the group, \<open>Print\<close>
  runs exactly as it does on the ticket without that item, so the item raises no error
  and changes nothing. And whenever \<open>Print\<close> resolves the ticket, the fields of an
  attribute that the ticket does not request or the description does not advertise are
  those of the device settings the job context was created with: an attribute is applied
  only when the ticket requests it and the description advertises it.
\<close>

theorem Print_unadvertised_ignored:
  "((Color (Description p) = None \<longrightarrow>
       Print c d ws (Some p) fileName title (Some (t\<lparr>t_Color := None\<rparr>))
         = Print c d ws (Some p) fileName title (Some t))
    \<and> (Duplex (Description p) = None \<longrightarrow>
       Print c d ws (Some p) fileName title (Some (t\<lparr>t_Duplex := None\<rparr>))
         = Print c d ws (Some p) fileName title (Some t))
    \<and> (PageOrientation (Description p) = None \<longrightarrow>
       Print c d ws (Some p) fileName title (Some (t\<lparr>t_PageOrientation := None\<rparr>))
         = Print c d ws (Some p) fileName title (Some t))
    \<and> (Copies (Description p) = None \<longrightarrow>
       Print c d ws (Some p) fileName title (Some (t\<lparr>t_Copies := None\<rparr>))
         = Print c d ws (Some p) fileName title (Some t))
    \<and> (MediaSize (Description p) = None \<longrightarrow>
       Print c d ws (Some p) fileName title (Some (t\<lparr>t_MediaSize := None\<rparr>))
         = Print c d ws (Some p) fileName title (Some t))
    \<and> (Collate (Description p) = None \<longrightarrow>
       Print c d ws (Some p) fileName title (Some (t\<lparr>t_Collate := None\<rparr>))
         = Print c d ws (Some p) fileName title (Some t)))
   \<and> (\<forall>run dm' opened jc.
        Print c d ws (Some p) fileName title (Some t) = Some run
        \<and> settings run = Some dm'
        \<and> newJobContext ws (Name p) fileName title = (opened, Inr jc) \<longrightarrow>
        (t_Color t = None \<or> Color (Description p) = None \<longrightarrow>
           dmColor dm' = dmColor (jc_devMode jc))
        \<and> (t_Duplex t = None \<or> Duplex (Description p) = None \<longrightarrow>
           dmDuplex dm' = dmDuplex (jc_devMode jc))
        \<and> (t_PageOrientation t = None \<or> PageOrientation (Description p) = None \<longrightarrow>
           dmOrientation dm' = dmOrientation (jc_devMode jc))
        \<and> (t_Copies t = None \<or> Copies (Description p) = None \<longrightarrow>
           dmCopies dm' = dmCopies (jc_devMode jc))
        \<and> (t_MediaSize t = None \<or> MediaSize (Description p) = None \<longrightarrow>
           dmPaperSize dm' = dmPaperSize (jc_devMode jc)
           \<and> dmPaperLength dm' = dmPaperLength (jc_devMode jc)
           \<and> dmPaperWidth dm' = dmPaperWidth (jc_devMode jc))
        \<and> (t_Collate t = None \<or> Collate (Description p) = None \<longrightarrow>
           dmCollate dm' = dmCollate (jc_devMode jc)))"
proof (intro conjI allI impI)
  fix run dm' opened jc
  assume a: "Print c d ws (Some p) fileName title (Some t) = Some run
        \<and> settings run = Some dm'
        \<and> newJobContext ws (Name p) fileName title = (opened, Inr jc)"
  then obtain opened' jc' where
    n: "newJobContext ws (Name p) fileName title = (opened', Inr jc')" and
    r: "resolveTicket d t (Description p) (jc_devMode jc') = Inr dm'"
    by (elim conjE Print_settings)
  from a n have "jc' = jc" by simp
  with r have r: "resolveTicket d t (Description p) (jc_devMode jc) = Inr dm'" by simp
  note u = resolveTicket_unchanged [OF r]
  show "dmColor dm' = dmColor (jc_devMode jc)"
    if "t_Color t = None \<or> Color (Description p) = None" using that by (rule u)
  show "dmDuplex dm' = dmDuplex (jc_devMode jc)"
    if "t_Duplex t = None \<or> Duplex (Description p) = None" using that by (rule u)
  show "dmOrientation dm' = dmOrientation (jc_devMode jc)"
    if "t_PageOrientation t = None \<or> PageOrientation (Description p) = None"
    using that by (rule u)
  show "dmCopies dm' = dmCopies (jc_devMode jc)"
    if "t_Copies t = None \<or> Copies (Description p) = None" using that by (rule u)
  show "dmPaperSize dm' = dmPaperSize (jc_devMode jc)"
    if "t_MediaSize t = None \<or> MediaSize (Description p) = None"
    using u(5) [OF that] by simp
  show "dmPaperLength dm' = dmPaperLength (jc_devMode jc)"
    if "t_MediaSize t = None \<or> MediaSize (Description p) = None"
    using u(5) [OF that] by simp
  show "dmPaperWidth dm' = dmPaperWidth (jc_devMode jc)"
    if "t_MediaSize t = None \<or> MediaSize (Description p) = None"
    using u(5) [OF that] by simp
  show "dmCollate dm' = dmCollate (jc_devMode jc)"
    if "t_Collate t = None \<or> Collate (Description p) = None" using that by (rule u)
qed (rule Print_same_resolution;
     simp add: resolveTicket_drop resolveFitToPage_drop fun_eq_iff)+

theorem Print_unadvertised_ignored_witness:
  "Print winspool_job_flags winspool_dm (okNative (noDevMode\<lparr>dmDuplex := Some 1\<rparr>))
     (Some officePrinter) ''report.pdf'' ''report''
     (Some (noTicket\<lparr>t_Duplex := Some DuplexLongEdge\<rparr>))
   = Some \<lparr>events = [SemaphoreAcquire, DocumentOpened, PrinterOpened, DCCreated, DocStarted,
              SurfaceCreated, ContextCreated, PagePrinted 0, JobRetained, ContextDestroyed,
              SurfaceDestroyed, DocEnded, DCDeleted, PrinterClosed, DocumentUnref,
              SemaphoreRelease],
            result = Inr 7,
            settings = Some (noDevMode\<lparr>dmDuplex := Some 1\<rparr>)\<rparr>"
proof -
  have adv: "Duplex (Description officePrinter) = None"
    by (simp add: officePrinter_def)
  have "Print winspool_job_flags winspool_dm (okNative (noDevMode\<lparr>dmDuplex := Some 1\<rparr>))
     (Some officePrinter) ''report.pdf'' ''report'' (Some noTicket)
   = Some \<lparr>events = [SemaphoreAcquire, DocumentOpened, PrinterOpened, DCCreated, DocStarted,
              SurfaceCreated, ContextCreated, PagePrinted 0, JobRetained, ContextDestroyed,
              SurfaceDestroyed, DocEnded, DCDeleted, PrinterClosed, DocumentUnref,
              SemaphoreRelease],
            result = Inr 7,
            settings = Some (noDevMode\<lparr>dmDuplex := Some 1\<rparr>)\<rparr>"
    by (simp add: run_defs)
  moreover have "(noTicket\<lparr>t_Duplex := Some DuplexLongEdge\<rparr>)\<lparr>t_Duplex := None\<rparr> = noTicket"
    by (simp add: noTicket_def)
  ultimately show ?thesis
    using Print_unadvertised_ignored [of officePrinter winspool_job_flags winspool_dm
        "okNative (noDevMode\<lparr>dmDuplex := Some 1\<rparr>)" "''report.pdf''" "''report''"
        "noTicket\<lparr>t_Duplex := Some DuplexLongEdge\<rparr>"] adv
    by simp
qed

lemma sdiv_nonneg: "0 \<le> k \<Longrightarrow> k sdiv (10::int) = k div 10"
  by (cases "k = 0") (simp_all add: signed_divide_int_def)

text \<open>
  What the two branches of the media-size block store. The explicit fields receive the
  micrometers divided by 10 (for sizes the field can hold), not by 100.
\<close>

lemma tenthOf_small:
  assumes "0 \<le> sint m" "sint m < 327680"
  shows "sint (tenthOf m) = sint m div 10"
proof -
  define q where "q = sint m div 10"
  have q: "0 \<le> q" "q < 32768"
    using assms by (simp_all add: q_def)
  have "tenthOf m = ucast (word_of_int q :: int32)"
    using assms(1) by (simp add: tenthOf_def sdiv_nonneg q_def)
  also have "\<dots> = (word_of_int q :: int16)"
    using q by (simp add: unsigned_of_int take_bit_int_eq_self)
  finally have "sint (tenthOf m) = sint (word_of_int q :: int16)" by simp
  also have "\<dots> = q"
    using q by (simp add: sint_sbintrunc' signed_take_bit_int_eq_self)
  finally show ?thesis by (simp add: q_def)
qed

lemma resolveMediaSize_applied:
  assumes "t_MediaSize t = Some item" "MediaSize desc \<noteq> None"
  shows "msti_VendorID item \<noteq> [] \<Longrightarrow> ParseInt16 (msti_VendorID item) = Inr v \<Longrightarrow>
      resolveMediaSize t desc dm
        = Inr (dm\<lparr>dmPaperSize := Some (word_of_int v), dmPaperLength := None,
                 dmPaperWidth := None\<rparr>)"
    and "msti_VendorID item = [] \<Longrightarrow>
      resolveMediaSize t desc dm
        = Inr (dm\<lparr>dmPaperSize := None,
                 dmPaperLength := Some (tenthOf (msti_HeightMicrons item)),
                 dmPaperWidth := Some (tenthOf (msti_WidthMicrons item))\<rparr>)"
  using assms by (auto simp: resolveMediaSize_def dm_setters)

lemma tenthOf_examples:
  "tenthOf 297000 = 29700" "tenthOf 210000 = 21000"
  by (simp_all add: tenthOf_def signed_divide_int_def)

text \<open>The height of A3, 420000 micrometers, no longer fits the field once divided by 10.\<close>

lemma tenthOf_A3: "sint (tenthOf 420000) = - 23536"
  by (simp add: tenthOf_def signed_divide_int_def)

text \<open>
  Claim C1 against the code. The ticket requests A4 by its dimensions (210000 by 297000
  micrometers, no vendor id) on a printer that advertises media sizes. \<open>Print\<close> clears
  the paper code and sets the explicit fields, but to the micrometers divided by 10:
  length 29700 and width 21000, where the tenths of a millimeter the claim states are
  2970 and 2100. \<open>convertMediaSize\<close> converts the other way by a factor of 100.
\<close>

theorem Print_media_size_by_dimensions:
  "Print winspool_job_flags winspool_dm (okNative (noDevMode\<lparr>dmPaperSize := Some 1\<rparr>))
     (Some officePrinter) ''report.pdf'' ''report''
     (Some (noTicket\<lparr>t_MediaSize := Some \<lparr>msti_WidthMicrons = 210000,
        msti_HeightMicrons = 297000, msti_IsContinuousFeed = False, msti_VendorID = ''''\<rparr>\<rparr>))
   = Some \<lparr>events = [SemaphoreAcquire, DocumentOpened, PrinterOpened, DCCreated, DocStarted,
              SurfaceCreated, ContextCreated, PagePrinted 0, JobRetained, ContextDestroyed,
              SurfaceDestroyed, DocEnded, DCDeleted, PrinterClosed, DocumentUnref,
              SemaphoreRelease],
            result = Inr 7,
            settings = Some (noDevMode\<lparr>dmPaperSize := None, dmPaperLength := Some 29700,
              dmPaperWidth := Some 21000\<rparr>)\<rparr>"
  by (simp add: run_defs tenthOf_examples)

lemma parseUintLoop_error:
  "parseUintLoop n s = Inl err \<Longrightarrow> err = SyntaxError \<or> err = RangeError"
  by (induction s arbitrary: n) (auto simp: Let_def split: if_splits)

lemma ParseInt16_error:
  "ParseInt16 s = Inl err \<Longrightarrow> err = SyntaxError \<or> err = RangeError"
  by (auto simp: ParseInt16_def ParseUint16_def Let_def
      split: if_splits sum.splits dest: parseUintLoop_error)

lemma resolveColor_error:
  "resolveColor d t desc dm = Inl err \<Longrightarrow> err = SyntaxError \<or> err = RangeError"
  by (auto simp: resolveColor_def split: option.splits if_splits sum.splits
      dest: ParseInt16_error)

lemma resolveMediaSize_error:
  "resolveMediaSize t desc dm = Inl err \<Longrightarrow> err = SyntaxError \<or> err = RangeError"
  by (auto simp: resolveMediaSize_def split: option.splits if_splits sum.splits
      dest: ParseInt16_error)

lemma resolveColor_malformed:
  assumes "t_Color t = Some item" "Color desc \<noteq> None"
    "colorValueByType d (cti_Type item) = None" "cti_VendorID item \<noteq> []"
    "isl (ParseInt16 (cti_VendorID item))"
  shows "isl (resolveColor d t desc dm)"
  using assms by (auto simp: resolveColor_def isl_def)

lemma resolveMediaSize_malformed:
  assumes "t_MediaSize t = Some item" "MediaSize desc \<noteq> None"
    "msti_VendorID item \<noteq> []" "isl (ParseInt16 (msti_VendorID item))"
  shows "isl (resolveMediaSize t desc dm)"
  using assms by (auto simp: resolveMediaSize_def isl_def)

lemma resolveTicket_error:
  "resolveTicket d t desc dm = Inl err \<Longrightarrow> err = SyntaxError \<or> err = RangeError"
  by (auto simp: resolveTicket_def split: sum.splits
      dest: resolveColor_error resolveMediaSize_error)

lemma resolveTicket_malformed:
  assumes "(\<exists>item. t_Color t = Some item \<and> Color desc \<noteq> None
            \<and> colorValueByType d (cti_Type item) = None \<and> cti_VendorID item \<noteq> []
            \<and> isl (ParseInt16 (cti_VendorID item)))
         \<or> (\<exists>item. t_MediaSize t = Some item \<and> MediaSize desc \<noteq> None
            \<and> msti_VendorID item \<noteq> [] \<and> isl (ParseInt16 (msti_VendorID item)))"
  shows "isl (resolveTicket d t desc dm)"
proof (cases "resolveColor d t desc dm")
  case (Inl err)
  then show ?thesis by (simp add: resolveTicket_def)
next
  case (Inr dm1)
  with assms resolveColor_malformed [of t _ desc d dm]
  obtain item where "t_MediaSize t = Some item" "MediaSize desc \<noteq> None"
      "msti_VendorID item \<noteq> []" "isl (ParseInt16 (msti_VendorID item))"
    by auto
  from resolveMediaSize_malformed [OF this]
  have "isl (resolveMediaSize t desc
      (resolveCopies t desc (resolveOrientation d t desc (resolveDuplex d t desc dm1))))" .
  with Inr show ?thesis
    by (auto simp: resolveTicket_def isl_def)
qed

lemma newJobContext_Inr:
  "newJobContext ws printerName fileName title = (opened, Inr jc) \<Longrightarrow>
   opened = [DocumentOpened, PrinterOpened, DCCreated, DocStarted, SurfaceCreated,
             ContextCreated]"
  by (auto simp: newJobContext_def split: option.splits sum.splits)

text \<open>
  Claim C2, amended. Once the job context is created, a ticket that carries a non-empty
  vendor id which \<open>ParseInt\<close> rejects, for a media size the description advertises or
  for a color the description advertises whose type is not one of the two standard
  types, makes \<open>Print\<close> return the parse error. The abort comes after the document,
  the printer, the device context, the document job, the surface and the rendering
  context were opened; the deferred \<open>free\<close> then runs, and the semaphore is released.
\<close>

theorem Print_malformed_vendor_id:
  assumes "newJobContext ws (Name p) fileName title = (opened, Inr jc)"
    and "(\<exists>item. t_Color t = Some item \<and> Color (Description p) \<noteq> None
            \<and> colorValueByType d (cti_Type item) = None \<and> cti_VendorID item \<noteq> []
            \<and> isl (ParseInt16 (cti_VendorID item)))
         \<or> (\<exists>item. t_MediaSize t = Some item \<and> MediaSize (Description p) \<noteq> None
            \<and> msti_VendorID item \<noteq> [] \<and> isl (ParseInt16 (msti_VendorID item)))"
  shows "\<exists>run. Print c d ws (Some p) fileName title (Some t) = Some run
     \<and> (result run = Inl SyntaxError \<or> result run = Inl RangeError)
     \<and> settings run = None
     \<and> events run =
         [SemaphoreAcquire, DocumentOpened, PrinterOpened, DCCreated, DocStarted,
          SurfaceCreated, ContextCreated] @ fst (free ws jc) @ [SemaphoreRelease]"
proof -
  from resolveTicket_malformed [OF assms(2)]
  obtain err where e: "resolveTicket d t (Description p) (jc_devMode jc) = Inl err"
    by (auto simp: isl_def)
  from resolveTicket_error [OF e] have k: "err = SyntaxError \<or> err = RangeError" .
  from e have j: "printJob c d ws p t jc = ([], Inl err, None)"
    by (simp add: printJob_def)
  from newJobContext_Inr [OF assms(1)] have o: "opened =
      [DocumentOpened, PrinterOpened, DCCreated, DocStarted, SurfaceCreated, ContextCreated]" .
  from assms(1) j k show ?thesis
    unfolding o by (auto simp: Print_def)
qed

lemma ParseInt16_A4: "ParseInt16 ''A4'' = Inl SyntaxError"
  by (simp add: ParseInt16_def ParseUint16_def)

text \<open>
  Claim C2, as stated, fails. With the malformed media-size vendor id \<open>A4\<close>, \<open>Print\<close>
  returns the syntax error only after it has opened every resource of the job context,
  which the deferred \<open>free\<close> releases. And with the malformed color vendor id \<open>rgb\<close> on
  a ticket whose color type is the standard color, \<open>Print\<close> does not abort at all: the
  type decides and the vendor id is not read.
\<close>

theorem Print_malformed_vendor_id_counterexample:
  "Print winspool_job_flags winspool_dm (okNative noDevMode)
     (Some officePrinter) ''report.pdf'' ''report''
     (Some (noTicket\<lparr>t_MediaSize := Some \<lparr>msti_WidthMicrons = 210000,
        msti_HeightMicrons = 297000, msti_IsContinuousFeed = False,
        msti_VendorID = ''A4''\<rparr>\<rparr>))
   = Some \<lparr>events = [SemaphoreAcquire, DocumentOpened, PrinterOpened, DCCreated, DocStarted,
              SurfaceCreated, ContextCreated, ContextDestroyed, SurfaceDestroyed, DocEnded,
              DCDeleted, PrinterClosed, DocumentUnref, SemaphoreRelease],
            result = Inl SyntaxError,
            settings = None\<rparr>
   \<and> Print winspool_job_flags winspool_dm (okNative noDevMode)
     (Some officePrinter) ''report.pdf'' ''report''
     (Some (noTicket\<lparr>t_Color := Some \<lparr>cti_VendorID = ''rgb'',
        cti_Type = ColorTypeStandardColor\<rparr>\<rparr>))
   = Some \<lparr>events = [SemaphoreAcquire, DocumentOpened, PrinterOpened, DCCreated, DocStarted,
              SurfaceCreated, ContextCreated, PagePrinted 0, JobRetained, ContextDestroyed,
              SurfaceDestroyed, DocEnded, DCDeleted, PrinterClosed, DocumentUnref,
              SemaphoreRelease],
            result = Inr 7,
            settings = Some (noDevMode\<lparr>dmColor := Some 2\<rparr>)\<rparr>"
  by (simp add: run_defs ParseInt16_A4)

theorem Print_malformed_vendor_id_witness:
  "\<exists>run. Print winspool_job_flags winspool_dm (okNative noDevMode)
     (Some officePrinter) ''report.pdf'' ''report''
     (Some (noTicket\<lparr>t_Color := Some \<lparr>cti_VendorID = ''A4'',
        cti_Type = ColorTypeCustomColor\<rparr>\<rparr>)) = Some run
     \<and> (result run = Inl SyntaxError \<or> result run = Inl RangeError)
     \<and> settings run = None
     \<and> events run =
         [SemaphoreAcquire, DocumentOpened, PrinterOpened, DCCreated, DocStarted,
          SurfaceCreated, ContextCreated, ContextDestroyed, SurfaceDestroyed, DocEnded,
          DCDeleted, PrinterClosed, DocumentUnref, SemaphoreRelease]"
proof -
  let ?jc = "\<lparr>jc_jobID = 7, jc_hPrinter = 1, jc_devMode = noDevMode\<rparr>"
  let ?t = "noTicket\<lparr>t_Color := Some \<lparr>cti_VendorID = ''A4'',
        cti_Type = ColorTypeCustomColor\<rparr>\<rparr>"
  have n: "newJobContext (okNative noDevMode) (Name officePrinter) ''report.pdf'' ''report''
      = ([DocumentOpened, PrinterOpened, DCCreated, DocStarted, SurfaceCreated,
          ContextCreated], Inr ?jc)"
    by (simp add: newJobContext_def okNative_def)
  have m: "(\<exists>item. t_Color ?t = Some item \<and> Color (Description officePrinter) \<noteq> None
            \<and> colorValueByType winspool_dm (cti_Type item) = None \<and> cti_VendorID item \<noteq> []
            \<and> isl (ParseInt16 (cti_VendorID item)))
         \<or> (\<exists>item. t_MediaSize ?t = Some item \<and> MediaSize (Description officePrinter) \<noteq> None
            \<and> msti_VendorID item \<noteq> [] \<and> isl (ParseInt16 (msti_VendorID item)))"
    by (simp add: officePrinter_def colorValueByType_def ParseInt16_A4)
  have f: "fst (free (okNative noDevMode) ?jc) =
      [ContextDestroyed, SurfaceDestroyed, DocEnded, DCDeleted, PrinterClosed, DocumentUnref]"
    by (simp add: free_def okNative_def)
  from Print_malformed_vendor_id [OF n m, of winspool_job_flags] f show ?thesis
    by simp
qed

text \<open>
  Claim C3 against the code. Every call succeeds but \<open>EndDoc\<close> inside \<open>free\<close>:
  \<open>free\<close> returns at that error, so the device context is never deleted, the printer
  never closed and the document never released, although \<open>Print\<close> returns the job id.
  The error paths of \<open>newJobContext\<close> make the same release calls without looking at
  their errors.
\<close>

theorem Print_free_stops_at_first_error:
  "Print winspool_job_flags winspool_dm ((okNative noDevMode)\<lparr>EndDoc := Some (NativeError 1)\<rparr>)
     (Some officePrinter) ''report.pdf'' ''report'' (Some noTicket)
   = Some \<lparr>events = [SemaphoreAcquire, DocumentOpened, PrinterOpened, DCCreated, DocStarted,
              SurfaceCreated, ContextCreated, PagePrinted 0, JobRetained, ContextDestroyed,
              SurfaceDestroyed, DocEnded, SemaphoreRelease],
            result = Inr 7,
            settings = Some noDevMode\<rparr>
   \<and> \<not> unwound [] [SemaphoreAcquire, DocumentOpened, PrinterOpened, DCCreated, DocStarted,
              SurfaceCreated, ContextCreated, PagePrinted 0, JobRetained, ContextDestroyed,
              SurfaceDestroyed, DocEnded, SemaphoreRelease]"
  by (simp add: run_defs)

lemma unwound_pages:
  "unwound pending (fst (printPages ws printerName devMode fitToPage idx) @ es)
   = unwound pending es"
  by (induction idx) (simp_all add: Let_def split: option.splits)

lemma printJob_events:
  "fst (printJob c d ws p t jc) = fst (printPages ws (Name p) dm fit idx)
   \<or> fst (printJob c d ws p t jc) = fst (printPages ws (Name p) dm fit idx) @ [JobRetained]
   \<Longrightarrow> unwound pending (fst (printJob c d ws p t jc) @ es) = unwound pending es"
  using unwound_pages [of pending ws "Name p" dm fit idx es]
    unwound_pages [of pending ws "Name p" dm fit idx "JobRetained # es"]
  by auto

lemma unwound_printJob:
  "unwound pending (fst (printJob c d ws p t jc) @ es) = unwound pending es"
proof (cases "resolveTicket d t (Description p) (jc_devMode jc)")
  case (Inl err)
  then show ?thesis by (simp add: printJob_def)
next
  case (Inr dm)
  have "fst (printJob c d ws p t jc)
         = fst (printPages ws (Name p) dm (resolveFitToPage t (Description p))
                 [0 ..< nat (GetNPages ws)])
   \<or> fst (printJob c d ws p t jc)
         = fst (printPages ws (Name p) dm (resolveFitToPage t (Description p))
                 [0 ..< nat (GetNPages ws)]) @ [JobRetained]"
    using Inr by (simp add: printJob_def Let_def split: option.splits sum.splits)
  then show ?thesis by (rule printJob_events)
qed

lemma newJobContext_Inl_unwound:
  "newJobContext ws printerName fileName title = (opened, Inl err) \<Longrightarrow>
   unwound [SemaphoreRelease] (opened @ [SemaphoreRelease])"
  by (auto simp: newJobContext_def split: option.splits sum.splits)

lemma free_succeeds:
  assumes "cContext_Destroy ws = None" "cSurface_Destroy ws = None" "EndDoc ws = None"
    "DeleteDC ws = None" "ClosePrinter ws (jc_hPrinter jc) = None"
  shows "free ws jc = ([ContextDestroyed, SurfaceDestroyed, DocEnded, DCDeleted, PrinterClosed,
           DocumentUnref], None)"
  using assms by (simp add: free_def)

text \<open>
  When every release call of \<open>free\<close> succeeds, every run of \<open>Print\<close> releases what it
  acquired in strict reverse order, the semaphore last, and leaves nothing acquired.
\<close>

lemma Print_unwound_when_free_succeeds:
  assumes "cContext_Destroy ws = None" "cSurface_Destroy ws = None" "EndDoc ws = None"
    "DeleteDC ws = None" "\<And>h. ClosePrinter ws h = None"
    and run: "Print c d ws printer fileName title ticket = Some run"
  shows "unwound [] (events run)"
proof -
  from run obtain p where p: "printer = Some p"
    by (cases printer) (simp_all add: Print_def)
  show ?thesis
  proof (cases ticket)
    case None
    with run p show ?thesis by (auto simp: Print_def)
  next
    case (Some t)
    obtain opened r where n: "newJobContext ws (Name p) fileName title = (opened, r)"
      by (cases "newJobContext ws (Name p) fileName title")
    show ?thesis
    proof (cases r)
      case (Inl err)
      with run p Some n have "events run = SemaphoreAcquire # opened @ [SemaphoreRelease]"
        by (auto simp: Print_def)
      with newJobContext_Inl_unwound [of ws "Name p" fileName title opened err] n Inl
      show ?thesis by simp
    next
      case (Inr jc)
      from n Inr have o: "opened = [DocumentOpened, PrinterOpened, DCCreated, DocStarted,
          SurfaceCreated, ContextCreated]"
        by (simp add: newJobContext_Inr)
      have f: "fst (free ws jc) = [ContextDestroyed, SurfaceDestroyed, DocEnded, DCDeleted,
          PrinterClosed, DocumentUnref]"
        using assms(1-5) by (simp add: free_succeeds)
      from run p Some n Inr have "events run = SemaphoreAcquire # opened
          @ fst (printJob c d ws p t jc) @ fst (free ws jc) @ [SemaphoreRelease]"
        by (auto simp: Print_def Let_def)
      then show ?thesis
        unfolding o f by (simp add: unwound_printJob)
    qed
  qed
qed

section \<open>Properties of the color group and of the page scaling\<close>

lemma FormatInt_examples: "FormatInt 1 = ''1''" "FormatInt 2 = ''2''"
  by (simp_all add: FormatInt_def FormatUint.simps digitChar_simps)

text \<open>
  Claim C9, as stated, fails. For device settings whose color field is the monochrome
  code, a device that reports no color-capable mode, \<open>GetPrinters\<close> still includes the
  color group, and the group offers one option, not two.
\<close>

theorem describeColor_counterexample:
  "describeColor winspool_dm (noDevMode\<lparr>dmColor := Some 1\<rparr>)
   = Some [\<lparr>co_VendorID = ''1'', co_Type = ColorTypeStandardMonochrome, co_IsDefault = True,
            co_CustomDisplayNameLocalized = ''Monochrome''\<rparr>]"
  by (simp add: describeColor_def noDevMode_def FormatInt_examples)

text \<open>
  Claim C9, amended. The color group of the description is included exactly when the
  color field of the device settings is set to the color code or to the monochrome code.
  With the color code the group offers exactly the two options color and monochrome,
  color being the default; with the monochrome code it offers monochrome alone, as the
  default. So the default always matches the active color setting of the device.
\<close>

theorem describeColor_groups:
  "(describeColor d devMode \<noteq> None \<longleftrightarrow>
      dmColor devMode = Some (d DMCOLOR_COLOR) \<or> dmColor devMode = Some (d DMCOLOR_MONOCHROME))
   \<and> (dmColor devMode = Some (d DMCOLOR_COLOR) \<longrightarrow>
        (\<exists>opts. describeColor d devMode = Some opts
           \<and> map co_Type opts = [ColorTypeStandardColor, ColorTypeStandardMonochrome]
           \<and> map co_IsDefault opts = [True, False]))
   \<and> (dmColor devMode = Some (d DMCOLOR_MONOCHROME) \<and> d DMCOLOR_MONOCHROME \<noteq> d DMCOLOR_COLOR \<longrightarrow>
        (\<exists>opts. describeColor d devMode = Some opts
           \<and> map co_Type opts = [ColorTypeStandardMonochrome]
           \<and> map co_IsDefault opts = [True]))"
  by (auto simp: describeColor_def split: option.splits)

theorem describeColor_groups_witness:
  "describeColor winspool_dm (noDevMode\<lparr>dmColor := Some 2\<rparr>) \<noteq> None
   \<and> (\<exists>opts. describeColor winspool_dm (noDevMode\<lparr>dmColor := Some 2\<rparr>) = Some opts
           \<and> map co_Type opts = [ColorTypeStandardColor, ColorTypeStandardMonochrome]
           \<and> map co_IsDefault opts = [True, False])
   \<and> (\<exists>opts. describeColor winspool_dm (noDevMode\<lparr>dmColor := Some 1\<rparr>) = Some opts
           \<and> map co_Type opts = [ColorTypeStandardMonochrome]
           \<and> map co_IsDefault opts = [True])
   \<and> describeColor winspool_dm (noDevMode\<lparr>dmColor := Some 3\<rparr>) = None"
  using describeColor_groups [of winspool_dm "noDevMode\<lparr>dmColor := Some 2\<rparr>"]
    describeColor_groups [of winspool_dm "noDevMode\<lparr>dmColor := Some 1\<rparr>"]
    describeColor_groups [of winspool_dm "noDevMode\<lparr>dmColor := Some 3\<rparr>"]
  by simp

lemma sint_times_72:
  fixes w :: int32
  assumes "0 \<le> sint w" "sint w * 72 < 2 ^ 31"
  shows "sint (w * 72) = sint w * 72"
proof -
  have "sint (w * 72) = signed_take_bit 31 (sint w * 72)"
    by (simp add: sint_word_ariths)
  also have "\<dots> = sint w * 72"
    using assms by (intro signed_take_bit_int_eq_self) simp_all
  finally show ?thesis .
qed

text \<open>
  Claim C4. For valid inputs (a document of positive size, positive resolutions, pixel
  counts that are not negative and whose product with 72 fits \<open>int32\<close>),
  \<open>getScaleAndOffset\<close> returns the scale
  \<open>min (targetWidthPoints / docW) (targetHeightPoints / docH)\<close>, where the target is the
  printable area in points when \<open>fitToPage\<close> holds and the full paper in points
  otherwise (points are pixels times 72 over the resolution), and the offsets
  \<open>(paperWpts - docW * scale) / 2\<close> and \<open>(paperHpts - docH * scale) / 2\<close>, against the
  full paper in both modes.
\<close>

theorem getScaleAndOffset_formula:
  assumes "0 < wDocPoints" "0 < hDocPoints" "0 < sint xDPI" "0 < sint yDPI"
    and "0 \<le> sint wPaperPixels" "sint wPaperPixels * 72 < 2 ^ 31"
    and "0 \<le> sint hPaperPixels" "sint hPaperPixels * 72 < 2 ^ 31"
    and "fitToPage \<longrightarrow> 0 \<le> sint wPrintablePixels \<and> sint wPrintablePixels * 72 < 2 ^ 31
           \<and> 0 \<le> sint hPrintablePixels \<and> sint hPrintablePixels * 72 < 2 ^ 31"
  shows "getScaleAndOffset wDocPoints hDocPoints wPaperPixels hPaperPixels
           xMarginPixels yMarginPixels wPrintablePixels hPrintablePixels xDPI yDPI fitToPage
    = (let wPaperPoints = real_of_int (sint wPaperPixels) * 72 / real_of_int (sint xDPI);
           hPaperPoints = real_of_int (sint hPaperPixels) * 72 / real_of_int (sint yDPI);
           wTargetPoints =
             (if fitToPage
              then real_of_int (sint wPrintablePixels) * 72 / real_of_int (sint xDPI)
              else wPaperPoints);
           hTargetPoints =
             (if fitToPage
              then real_of_int (sint hPrintablePixels) * 72 / real_of_int (sint yDPI)
              else hPaperPoints);
           scale = min (wTargetPoints / wDocPoints) (hTargetPoints / hDocPoints)
       in (scale,
           (wPaperPoints - wDocPoints * scale) / 2,
           (hPaperPoints - hDocPoints * scale) / 2))"
proof -
  have w: "sint (wPaperPixels * 72) = sint wPaperPixels * 72"
    using assms(5,6) by (rule sint_times_72)
  have h: "sint (hPaperPixels * 72) = sint hPaperPixels * 72"
    using assms(7,8) by (rule sint_times_72)
  have pw: "sint (wPrintablePixels * 72) = sint wPrintablePixels * 72" if fitToPage
    using assms(9) that by (intro sint_times_72) simp_all
  have ph: "sint (hPrintablePixels * 72) = sint hPrintablePixels * 72" if fitToPage
    using assms(9) that by (intro sint_times_72) simp_all
  show ?thesis
  proof (cases fitToPage)
    case True
    then show ?thesis
      by (simp add: getScaleAndOffset_def Let_def w h pw ph min_def)
  next
    case False
    then show ?thesis
      by (simp add: getScaleAndOffset_def Let_def w h min_def)
  qed
qed

theorem getScaleAndOffset_formula_witness:
  "getScaleAndOffset 612 792 5100 6600 100 100 4900 6400 600 600 True = (49 / 51, 12, 264 / 17)
   \<and> getScaleAndOffset 612 792 5100 6600 100 100 4900 6400 600 600 False = (1, 0, 0)"
proof -
  have a: "getScaleAndOffset 612 792 5100 6600 100 100 4900 6400 600 600 True
      = (49 / 51, 12, 264 / 17)"
    by (subst getScaleAndOffset_formula) (simp_all add: Let_def)
  have b: "getScaleAndOffset 612 792 5100 6600 100 100 4900 6400 600 600 False = (1, 0, 0)"
    by (subst getScaleAndOffset_formula) (simp_all add: Let_def)
  from a b show ?thesis by (rule conjI)
qed

end
